theory Spec2Isabelle
  imports Main "HOL-Library.Word"
begin

unbundle bit_operations_syntax

section \<open>Names\<close>

text \<open>
  An account or action name is a 64-bit integer. The macro \<open>N(x)\<close> of the chain library
  packs the characters of \<open>x\<close> into it, five bits per character for the first twelve
  characters and four bits for a thirteenth. The plugin compares names for equality and
  keeps them in ordered sets, so the packing is written out here as the library computes it.
\<close>

type_synonym name = "64 word"

definition char_to_symbol :: "char \<Rightarrow> 64 word" where
  "char_to_symbol c =
     (let v = (of_char c :: nat) in
      if 97 \<le> v \<and> v \<le> 122 then of_nat (v - 97) + 6
      else if 49 \<le> v \<and> v \<le> 53 then of_nat (v - 49) + 1
      else 0)"

fun string_to_name_from :: "nat \<Rightarrow> string \<Rightarrow> 64 word" where
  "string_to_name_from i [] = 0"
| "string_to_name_from i (c # cs) =
     (if i < 12
      then push_bit (64 - 5 * (i + 1)) (char_to_symbol c AND 0x1f) OR string_to_name_from (i + 1) cs
      else if i = 12 then char_to_symbol c AND 0x0f
      else 0)"

definition N :: "string \<Rightarrow> name" where
  "N str = string_to_name_from 0 str"

definition system_account_name :: name where
  "system_account_name = N ''eosio''"

section \<open>Chain data handed to the plugin\<close>

type_synonym bytes = "8 word list"
type_synonym block_num_type = "32 word"
type_synonym transaction_id_type = bytes
type_synonym digest_type = bytes
type_synonym variant = string

record asset =
  amount :: "64 word"
  sym :: "64 word"

text \<open>
  The payload of an action is a byte string that \<open>data_as<T>()\<close> deserialises into the
  struct \<open>T\<close> chosen by the action name; the deserialiser throws when the bytes do not
  hold a \<open>T\<close>. The walker asks for one struct per action only, so the payload is modelled
  by what that request yields: the struct, one constructor per struct type, or
  \<open>Undecoded\<close> bytes. Asking for another struct than the payload holds is the
  exception. The structs of the namespace \<open>syscontract\<close> carry all their fields; of the
  structs that the chain library declares only the field the walker reads is kept.
\<close>

datatype action_data =
    Newaccount name
  | Setcode name
  | Setabi name
  | Updateauth name
  | Deleteauth name
  | Linkauth name
  | Unlinkauth name
  | Buyrambytes name name "32 word"
  | Buyram name name asset
  | Sellram name "64 word"
  | Delegatebw name name asset asset bool
  | Undelegatebw name name asset asset
  | Refund name
  | Regproducer name bytes string "16 word"
  | Unregprod name
  | Regproxy name bool
  | Voteproducer name name "name list"
  | Claimrewards name
  | Undecoded bytes

record action =
  account :: name
  name :: name
  data :: action_data

record action_receipt =
  receiver :: name
  global_sequence :: "64 word"

datatype action_trace =
  Action_trace (receipt: action_receipt) (act: action) (inline_traces: "action_trace list")

datatype status_enum = executed | soft_fail | hard_fail | delayed | expired

fun status_to_uint8 :: "status_enum \<Rightarrow> 8 word" where
  "status_to_uint8 executed = 0"
| "status_to_uint8 soft_fail = 1"
| "status_to_uint8 hard_fail = 2"
| "status_to_uint8 delayed = 3"
| "status_to_uint8 expired = 4"

record transaction_receipt_header =
  status :: status_enum
  cpu_usage_us :: "32 word"
  net_usage_words :: "32 word"

record transaction_trace =
  trace_id :: transaction_id_type
  trace_receipt :: "transaction_receipt_header option"
  action_traces :: "action_trace list"

text \<open>
  A packed transaction computes its identifier by hashing; the model keeps the value that
  \<open>id()\<close> returns beside the packed bytes.
\<close>

record packed_transaction =
  packed_trx :: bytes
  packed_id :: transaction_id_type

datatype trx_variant = Trx_id transaction_id_type | Trx_packed packed_transaction

record transaction_receipt = transaction_receipt_header +
  trx :: trx_variant

record signed_block =
  block_num :: block_num_type
  timestamp :: "32 word"
  digest :: digest_type
  transactions :: "transaction_receipt list"

record block_state =
  block :: signed_block

section \<open>The chain services the plugin reads\<close>

record account_resource_limit =
  used :: "64 word"
  available :: "64 word"
  max_limit :: "64 word"

text \<open>
  The controller, its resource-limits manager and its database are read-only
  collaborators: each call the plugin makes is a field. \<open>find_table_id code scope table\<close>
  is the lookup of a table by code, scope and name, \<open>table_rows t\<close> the values of the
  key-value rows of table \<open>t\<close> in primary-key order. \<open>unpack_asset\<close> and
  \<open>symbol_valid\<close> stand for the library's deserialiser and symbol check. All of them
  are total functions: a service that fails, like a socket that refuses a message, is
  outside the model.
\<close>

record controller =
  to_variant_with_abi :: "action_trace \<Rightarrow> variant"
  last_irreversible_block_num :: "32 word"
  is_resource_greylisted :: "name \<Rightarrow> bool"
  get_account_limits :: "name \<Rightarrow> 64 word \<times> 64 word \<times> 64 word"
  get_account_net_limit_ex :: "name \<Rightarrow> bool \<Rightarrow> account_resource_limit"
  get_account_cpu_limit_ex :: "name \<Rightarrow> bool \<Rightarrow> account_resource_limit"
  get_account_ram_usage :: "name \<Rightarrow> 64 word"
  find_table_id :: "name \<Rightarrow> name \<Rightarrow> name \<Rightarrow> nat option"
  table_rows :: "nat \<Rightarrow> bytes list"
  unpack_asset :: "bytes \<Rightarrow> asset"
  symbol_valid :: "64 word \<Rightarrow> bool"

section \<open>The objects the plugin publishes\<close>

definition MSGTYPE_ACTION_TRACE :: "32 word" where "MSGTYPE_ACTION_TRACE = 0"
definition MSGTYPE_IRREVERSIBLE_BLOCK :: "32 word" where "MSGTYPE_IRREVERSIBLE_BLOCK = 1"
definition MSGTYPE_FORK :: "32 word" where "MSGTYPE_FORK = 2"
definition MSGTYPE_ACCEPTED_BLOCK :: "32 word" where "MSGTYPE_ACCEPTED_BLOCK = 3"
definition MSGTYPE_FAILED_TX :: "32 word" where "MSGTYPE_FAILED_TX = 4"

record resource_balance =
  rb_account_name :: name
  ram_quota :: "64 word"
  ram_usage :: "64 word"
  net_weight :: "64 word"
  cpu_weight :: "64 word"
  net_limit :: account_resource_limit
  cpu_limit :: account_resource_limit

record currency_balance =
  cb_account_name :: name
  contract :: name
  balance :: asset

record zmq_action_object =
  global_action_seq :: "64 word"
  zao_block_num :: block_num_type
  block_time :: "32 word"
  action_trace :: variant
  resource_balances :: "resource_balance list"
  currency_balances :: "currency_balance list"
  last_irreversible_block :: "32 word"

record zmq_irreversible_block_object =
  irreversible_block_num :: block_num_type
  irreversible_block_digest :: digest_type

record zmq_fork_block_object =
  invalid_block_num :: block_num_type

record zmq_accepted_block_object =
  accepted_block_num :: block_num_type
  accepted_block_digest :: digest_type

record zmq_failed_transaction_object =
  trx_id :: string
  zfto_block_num :: block_num_type
  status_name :: status_enum
  status_int :: "8 word"

datatype zmq_object =
    Action_object zmq_action_object
  | Irreversible_block_object zmq_irreversible_block_object
  | Fork_block_object zmq_fork_block_object
  | Accepted_block_object zmq_accepted_block_object
  | Failed_transaction_object zmq_failed_transaction_object

section \<open>Effects and state of the plugin\<close>

text \<open>
  What a handler does beyond updating the plugin's fields is returned as a list of
  effects, in the order the code performs them:
  \<^item> \<open>Socket_send x t o\<close> is the call \<open>send_msg(fc::json::to_string(x), t, o)\<close>;
  \<^item> \<open>Ilog_missing_trace i\<close> is the line \<open>ilog\<close> writes for transaction \<open>i\<close>;
  \<^item> \<open>Call_add_account_resource a\<close> and \<open>Call_add_currency_balances a c\<close> record the
    calls of the two lookups of \<open>on_action_trace\<close>.
  A handler either returns or is left by the exception of a failed \<open>data_as\<close>.
\<close>

datatype effect =
    Socket_send zmq_object "32 word" "32 word"
  | Ilog_missing_trace transaction_id_type
  | Call_add_account_resource name
  | Call_add_currency_balances name name

datatype completion = Returned | Threw

text \<open>
  \<open>std::set<name>\<close> is a strictly ascending list: \<open>set_insert\<close> is its \<open>insert\<close>,
  membership its \<open>find\<close>, and the list order is the order of iteration.
\<close>

definition set_insert :: "name \<Rightarrow> name list \<Rightarrow> name list" where
  "set_insert x xs = (if x \<in> set xs then xs else insort x xs)"

definition map_emplace :: "'k \<Rightarrow> 'v \<Rightarrow> ('k \<rightharpoonup> 'v) \<Rightarrow> ('k \<rightharpoonup> 'v)" where
  "map_emplace k v m = (case m k of None \<Rightarrow> m(k \<mapsto> v) | Some _ \<Rightarrow> m)"

text \<open>
  The fields of \<open>zmq_plugin_impl\<close> that the handlers read or write. The socket is
  represented by the \<open>Socket_send\<close> effects; \<open>chain_plug\<close> is the controller that
  \<open>plugin_initialize\<close> stores.
\<close>

record zmq_plugin_impl =
  chain_plug :: controller
  system_accounts :: "name list"
  blacklist_actions :: "name \<rightharpoonup> name list"
  cached_traces :: "transaction_id_type \<rightharpoonup> transaction_trace"
  end_block :: "32 word"

definition sys_acc_names :: "name list" where
  "sys_acc_names =
     [system_account_name,
      N ''eosio.msig'', N ''eosio.token'', N ''eosio.ram'', N ''eosio.ramfee'',
      N ''eosio.stake'', N ''eosio.vpay'', N ''eosio.bpay'', N ''eosio.saving'']"

definition zmq_plugin_impl_init :: "controller \<Rightarrow> zmq_plugin_impl" where
  "zmq_plugin_impl_init ch =
     \<lparr> chain_plug = ch,
       system_accounts = fold set_insert sys_acc_names [],
       blacklist_actions =
         map_emplace (N ''blocktwitter'') (set_insert (N ''tweet'') [])
           (map_emplace system_account_name (set_insert (N ''onblock'') []) Map.empty),
       cached_traces = Map.empty,
       end_block = 0 \<rparr>"

section \<open>send_msg\<close>

text \<open>
  \<open>memcpy\<close> of an \<open>int32_t\<close> writes its four bytes in host order, least significant
  byte first on the little-endian machines the node runs on.
\<close>

definition int32_bytes :: "32 word \<Rightarrow> bytes" where
  "int32_bytes w = [ucast w, ucast (drop_bit 8 w), ucast (drop_bit 16 w), ucast (drop_bit 24 w)]"

definition send_msg :: "string \<Rightarrow> 32 word \<Rightarrow> 32 word \<Rightarrow> bytes" where
  "send_msg content msgtype msgopts =
     int32_bytes msgtype @ int32_bytes msgopts @ map of_char content"

text \<open>The bytes an effect puts on the wire, for a serialiser \<open>to_string\<close>.\<close>

fun frames :: "(zmq_object \<Rightarrow> string) \<Rightarrow> effect \<Rightarrow> bytes list" where
  "frames to_string (Socket_send x t opts) = [send_msg (to_string x) t opts]"
| "frames to_string _ = []"

text \<open>
  The reader's side of the frame header, which the plugin does not contain: two
  little-endian 32-bit integers at the start of a message of at least eight bytes.
\<close>

definition bytes_int32 :: "bytes \<Rightarrow> 32 word" where
  "bytes_int32 bs =
     ucast (bs ! 0) OR push_bit 8 (ucast (bs ! 1)) OR push_bit 16 (ucast (bs ! 2))
       OR push_bit 24 (ucast (bs ! 3))"

definition decode_header :: "bytes \<Rightarrow> (32 word \<times> 32 word) option" where
  "decode_header m =
     (if length m < 8 then None
      else Some (bytes_int32 (take 4 m), bytes_int32 (take 4 (drop 4 m))))"

section \<open>on_applied_transaction\<close>

definition on_applied_transaction ::
  "zmq_plugin_impl \<Rightarrow> transaction_trace \<Rightarrow> zmq_plugin_impl \<times> effect list \<times> completion" where
  "on_applied_transaction s p =
     (if trace_receipt p \<noteq> None
      then (s\<lparr>cached_traces := (cached_traces s)(trace_id p \<mapsto> p)\<rparr>, [], Returned)
      else (s, [], Returned))"

section \<open>find_accounts_and_tokens\<close>

text \<open>
  The \<open>switch\<close> over the names of the system contract's actions. Each case deserialises
  the payload as its struct (\<open>None\<close> is the deserialiser's exception) and inserts the
  accounts it names.
\<close>

definition system_action_accounts :: "action \<Rightarrow> name list \<Rightarrow> name list option" where
  "system_action_accounts a accounts =
     (let n = name a; d = data a in
      if n = N ''newaccount'' then
        (case d of Newaccount x \<Rightarrow> Some (set_insert x accounts) | _ \<Rightarrow> None)
      else if n = N ''setcode'' then
        (case d of Setcode x \<Rightarrow> Some (set_insert x accounts) | _ \<Rightarrow> None)
      else if n = N ''setabi'' then
        (case d of Setabi x \<Rightarrow> Some (set_insert x accounts) | _ \<Rightarrow> None)
      else if n = N ''updateauth'' then
        (case d of Updateauth x \<Rightarrow> Some (set_insert x accounts) | _ \<Rightarrow> None)
      else if n = N ''deleteauth'' then
        (case d of Deleteauth x \<Rightarrow> Some (set_insert x accounts) | _ \<Rightarrow> None)
      else if n = N ''linkauth'' then
        (case d of Linkauth x \<Rightarrow> Some (set_insert x accounts) | _ \<Rightarrow> None)
      else if n = N ''unlinkauth'' then
        (case d of Unlinkauth x \<Rightarrow> Some (set_insert x accounts) | _ \<Rightarrow> None)
      else if n = N ''buyrambytes'' then
        (case d of
           Buyrambytes payer rcv b \<Rightarrow>
             Some (let acc = set_insert payer accounts
                   in if rcv \<noteq> payer then set_insert rcv acc else acc)
         | _ \<Rightarrow> None)
      else if n = N ''buyram'' then
        (case d of
           Buyram payer rcv q \<Rightarrow>
             Some (let acc = set_insert payer accounts
                   in if rcv \<noteq> payer then set_insert rcv acc else acc)
         | _ \<Rightarrow> None)
      else if n = N ''sellram'' then
        (case d of Sellram x b \<Rightarrow> Some (set_insert x accounts) | _ \<Rightarrow> None)
      else if n = N ''delegatebw'' then
        (case d of
           Delegatebw from rcv sn sc tr \<Rightarrow>
             Some (let acc = set_insert from accounts
                   in if rcv \<noteq> from then set_insert rcv acc else acc)
         | _ \<Rightarrow> None)
      else if n = N ''undelegatebw'' then
        (case d of
           Undelegatebw from rcv un uc \<Rightarrow>
             Some (let acc = set_insert from accounts
                   in if rcv \<noteq> from then set_insert rcv acc else acc)
         | _ \<Rightarrow> None)
      else if n = N ''refund'' then
        (case d of Refund x \<Rightarrow> Some (set_insert x accounts) | _ \<Rightarrow> None)
      else if n = N ''regproducer'' then
        (case d of Regproducer x k u l \<Rightarrow> Some (set_insert x accounts) | _ \<Rightarrow> None)
      else if n = N ''bidname'' then Some accounts
      else if n = N ''unregprod'' then
        (case d of Unregprod x \<Rightarrow> Some (set_insert x accounts) | _ \<Rightarrow> None)
      else if n = N ''regproxy'' then
        (case d of Regproxy x b \<Rightarrow> Some (set_insert x accounts) | _ \<Rightarrow> None)
      else if n = N ''voteproducer'' then
        (case d of
           Voteproducer voter proxy producers \<Rightarrow>
             Some (let acc = set_insert voter accounts
                   in if proxy \<noteq> 0 then set_insert proxy acc else acc)
         | _ \<Rightarrow> None)
      else if n = N ''claimrewards'' then
        (case d of Claimrewards x \<Rightarrow> Some (set_insert x accounts) | _ \<Rightarrow> None)
      else Some accounts)"

text \<open>
  What one action contributes before its inline actions are visited: the body of
  \<open>find_accounts_and_tokens\<close> up to its final loop.
\<close>

definition visit_action ::
  "action_receipt \<Rightarrow> action \<Rightarrow> name list \<times> name list \<Rightarrow> (name list \<times> name list) option" where
  "visit_action rcpt a st =
     (let accounts = set_insert (account a) (fst st);
          token_contracts = snd st;
          accounts = (if receiver rcpt \<noteq> account a then set_insert (receiver rcpt) accounts
                      else accounts)
      in if account a = system_account_name then
           (case system_action_accounts a accounts of
              None \<Rightarrow> None
            | Some accounts' \<Rightarrow> Some (accounts', token_contracts))
         else if name a = N ''transfer'' \<or> name a = N ''issue'' \<or> name a = N ''open'' then
           Some (accounts, set_insert (account a) token_contracts)
         else Some (accounts, token_contracts))"

fun find_accounts_and_tokens ::
      "action_trace \<Rightarrow> name list \<times> name list \<Rightarrow> (name list \<times> name list) option"
  and find_inline_traces ::
      "action_trace list \<Rightarrow> name list \<times> name list \<Rightarrow> (name list \<times> name list) option" where
  "find_accounts_and_tokens (Action_trace rcpt a inl) st =
     (case visit_action rcpt a st of
        None \<Rightarrow> None
      | Some st' \<Rightarrow> find_inline_traces inl st')"
| "find_inline_traces [] st = Some st"
| "find_inline_traces (iline # rest) st =
     (case find_accounts_and_tokens iline st of
        None \<Rightarrow> None
      | Some st' \<Rightarrow> find_inline_traces rest st')"

section \<open>The lookups of on_action_trace\<close>

definition is_account_of_interest :: "zmq_plugin_impl \<Rightarrow> name \<Rightarrow> bool" where
  "is_account_of_interest s account_name =
     (if account_name \<in> set (system_accounts s) then False else True)"

definition add_account_resource ::
  "controller \<Rightarrow> zmq_action_object \<Rightarrow> name \<Rightarrow> zmq_action_object" where
  "add_account_resource ch zao account_name =
     (let (ram, net, cpu) = get_account_limits ch account_name;
          grelisted = is_resource_greylisted ch account_name;
          bal = \<lparr> rb_account_name = account_name,
                  ram_quota = ram,
                  ram_usage = get_account_ram_usage ch account_name,
                  net_weight = net,
                  cpu_weight = cpu,
                  net_limit = get_account_net_limit_ex ch account_name (\<not> grelisted),
                  cpu_limit = get_account_cpu_limit_ex ch account_name (\<not> grelisted) \<rparr>
      in zao\<lparr>resource_balances := resource_balances zao @ [bal]\<rparr>)"

text \<open>\<open>sizeof(asset)\<close> is 16: a 64-bit amount and a 64-bit symbol.\<close>

definition add_currency_row ::
  "controller \<Rightarrow> name \<Rightarrow> name \<Rightarrow> bytes \<Rightarrow> zmq_action_object \<Rightarrow> zmq_action_object" where
  "add_currency_row ch account_name token_code v zao =
     (if 16 \<le> length v then
        (let bal = unpack_asset ch v
         in if symbol_valid ch (sym bal)
            then zao\<lparr>currency_balances := currency_balances zao @
                   [\<lparr> cb_account_name = account_name, contract = token_code, balance = bal \<rparr>]\<rparr>
            else zao)
      else zao)"

definition add_currency_balances ::
  "controller \<Rightarrow> zmq_action_object \<Rightarrow> name \<Rightarrow> name \<Rightarrow> zmq_action_object" where
  "add_currency_balances ch zao account_name token_code =
     (case find_table_id ch token_code account_name (N ''accounts'') of
        None \<Rightarrow> zao
      | Some t_id \<Rightarrow> fold (add_currency_row ch account_name token_code) (table_rows ch t_id) zao)"

section \<open>on_action_trace\<close>

definition blacklisted :: "zmq_plugin_impl \<Rightarrow> action \<Rightarrow> bool" where
  "blacklisted s a =
     (case blacklist_actions s (account a) of
        None \<Rightarrow> False
      | Some acts \<Rightarrow> name a \<in> set acts)"

text \<open>The two nested iterations over the discovered sets, in iteration order.\<close>

fun token_loop ::
  "controller \<Rightarrow> name \<Rightarrow> name list \<Rightarrow> zmq_action_object \<times> effect list
     \<Rightarrow> zmq_action_object \<times> effect list" where
  "token_loop ch account_name [] ze = ze"
| "token_loop ch account_name (t # ts) ze =
     token_loop ch account_name ts
       (add_currency_balances ch (fst ze) account_name t,
        snd ze @ [Call_add_currency_balances account_name t])"

fun account_loop ::
  "zmq_plugin_impl \<Rightarrow> name list \<Rightarrow> name list \<Rightarrow> zmq_action_object \<times> effect list
     \<Rightarrow> zmq_action_object \<times> effect list" where
  "account_loop s [] token_contracts ze = ze"
| "account_loop s (account_name # rest) token_contracts ze =
     (if is_account_of_interest s account_name
      then account_loop s rest token_contracts
             (token_loop (chain_plug s) account_name token_contracts
                (add_account_resource (chain_plug s) (fst ze) account_name,
                 snd ze @ [Call_add_account_resource account_name]))
      else account_loop s rest token_contracts ze)"

text \<open>
  \<open>last_irreversible_block\<close> of the object is written last and not read before; it
  starts as 0 here.
\<close>

definition on_action_trace ::
  "zmq_plugin_impl \<Rightarrow> action_trace \<Rightarrow> block_state \<Rightarrow> effect list \<times> completion" where
  "on_action_trace s at bs =
     (if blacklisted s (act at) then ([], Returned)
      else
        (let ch = chain_plug s;
             zao = \<lparr> global_action_seq = global_sequence (receipt at),
                     zao_block_num = block_num (block bs),
                     block_time = timestamp (block bs),
                     action_trace = to_variant_with_abi ch at,
                     resource_balances = [],
                     currency_balances = [],
                     last_irreversible_block = 0 \<rparr>
         in case find_accounts_and_tokens at ([], []) of
              None \<Rightarrow> ([], Threw)
            | Some (accounts, token_contracts) \<Rightarrow>
                (let ze = account_loop s accounts token_contracts (zao, []);
                     zao' = (fst ze)\<lparr>last_irreversible_block := last_irreversible_block_num ch\<rparr>
                 in (snd ze @ [Socket_send (Action_object zao') MSGTYPE_ACTION_TRACE 0],
                     Returned))))"

section \<open>on_accepted_block and on_irreversible_block\<close>

text \<open>
  A range-based \<open>for\<close> whose body may throw: the effects of the bodies in order, up to
  and including the body that throws.
\<close>

fun for_each :: "('a \<Rightarrow> effect list \<times> completion) \<Rightarrow> 'a list \<Rightarrow> effect list \<times> completion" where
  "for_each body [] = ([], Returned)"
| "for_each body (x # xs) =
     (case body x of
        (es, Threw) \<Rightarrow> (es, Threw)
      | (es, Returned) \<Rightarrow> (case for_each body xs of (es', c) \<Rightarrow> (es @ es', c)))"

text \<open>\<open>fc::sha256::str()\<close>: two lower-case hexadecimal digits per byte.\<close>

definition hex_digit :: "nat \<Rightarrow> char" where
  "hex_digit n = ''0123456789abcdef'' ! n"

definition sha256_str :: "bytes \<Rightarrow> string" where
  "sha256_str h = concat (map (\<lambda>b. [hex_digit (unat b div 16), hex_digit (unat b mod 16)]) h)"

definition receipt_id :: "transaction_receipt \<Rightarrow> transaction_id_type" where
  "receipt_id r = (case trx r of Trx_id i \<Rightarrow> i | Trx_packed p \<Rightarrow> packed_id p)"

text \<open>The body of the loop over the receipts of the block.\<close>

definition on_receipt ::
  "zmq_plugin_impl \<Rightarrow> block_state \<Rightarrow> transaction_receipt \<Rightarrow> effect list \<times> completion" where
  "on_receipt s bs r =
     (let id = receipt_id r in
      if status r = executed then
        (case cached_traces s id of
           None \<Rightarrow> ([Ilog_missing_trace id], Returned)
         | Some t \<Rightarrow>
             if trace_receipt t = None then ([Ilog_missing_trace id], Returned)
             else for_each (\<lambda>atrace. on_action_trace s atrace bs) (action_traces t))
      else
        ([Socket_send
            (Failed_transaction_object
               \<lparr> trx_id = sha256_str id,
                 zfto_block_num = block_num (block bs),
                 status_name = status r,
                 status_int = status_to_uint8 (status r) \<rparr>)
            MSGTYPE_FAILED_TX 0],
         Returned))"

definition fork_effects :: "zmq_plugin_impl \<Rightarrow> block_state \<Rightarrow> effect list" where
  "fork_effects s bs =
     (if end_block s \<ge> block_num (block bs)
      then [Socket_send (Fork_block_object \<lparr> invalid_block_num = block_num (block bs) \<rparr>)
              MSGTYPE_FORK 0]
      else [])"

definition accepted_effect :: "block_state \<Rightarrow> effect" where
  "accepted_effect bs =
     Socket_send
       (Accepted_block_object
          \<lparr> accepted_block_num = block_num (block bs),
            accepted_block_digest = digest (block bs) \<rparr>)
       MSGTYPE_ACCEPTED_BLOCK 0"

text \<open>
  When a body of the loop throws, the handler is left before \<open>cached_traces.clear()\<close>:
  the messages already sent stay sent, \<open>_end_block\<close> keeps its new value and the cache
  keeps its entries.
\<close>

definition on_accepted_block ::
  "zmq_plugin_impl \<Rightarrow> block_state \<Rightarrow> zmq_plugin_impl \<times> effect list \<times> completion" where
  "on_accepted_block s bs =
     (let s1 = s\<lparr>end_block := block_num (block bs)\<rparr>;
          head = fork_effects s bs @ [accepted_effect bs]
      in case for_each (on_receipt s1 bs) (transactions (block bs)) of
           (es, Returned) \<Rightarrow> (s1\<lparr>cached_traces := Map.empty\<rparr>, head @ es, Returned)
         | (es, Threw) \<Rightarrow> (s1, head @ es, Threw))"

definition on_irreversible_block ::
  "zmq_plugin_impl \<Rightarrow> block_state \<Rightarrow> zmq_plugin_impl \<times> effect list \<times> completion" where
  "on_irreversible_block s bs =
     (s,
      [Socket_send
         (Irreversible_block_object
            \<lparr> irreversible_block_num = block_num (block bs),
              irreversible_block_digest = digest (block bs) \<rparr>)
         MSGTYPE_IRREVERSIBLE_BLOCK 0],
      Returned)"

section \<open>Notions used to state the properties\<close>

text \<open>The message type of a send; \<open>None\<close> for an effect that sends nothing.\<close>

fun sent_type :: "effect \<Rightarrow> 32 word option" where
  "sent_type (Socket_send x t opts) = Some t"
| "sent_type _ = None"

text \<open>The actions of an action tree, the action itself first.\<close>

fun actions_of :: "action_trace \<Rightarrow> action list"
  and actions_of_list :: "action_trace list \<Rightarrow> action list" where
  "actions_of (Action_trace rcpt a inl) = a # actions_of_list inl"
| "actions_of_list [] = []"
| "actions_of_list (t # ts) = actions_of t @ actions_of_list ts"

text \<open>
  The specification's condition for a token contract: an action that is not the system
  contract's and is named transfer, issue or open.
\<close>

definition is_token_action :: "action \<Rightarrow> bool" where
  "is_token_action a =
     (account a \<noteq> system_account_name \<and>
      (name a = N ''transfer'' \<or> name a = N ''issue'' \<or> name a = N ''open''))"

text \<open>
  The lookups of the full cross product: for each account outside the system accounts,
  in order, its resource snapshot and then its balance at every token contract.
\<close>

definition lookup_calls :: "zmq_plugin_impl \<Rightarrow> name list \<Rightarrow> name list \<Rightarrow> effect list" where
  "lookup_calls s accounts token_contracts =
     concat (map (\<lambda>a. Call_add_account_resource a #
                        map (Call_add_currency_balances a) token_contracts)
                 (filter (\<lambda>a. a \<notin> set (system_accounts s)) accounts))"

definition no_system_balances :: "zmq_plugin_impl \<Rightarrow> zmq_action_object \<Rightarrow> bool" where
  "no_system_balances s zao =
     ((\<forall>rb \<in> set (resource_balances zao). rb_account_name rb \<notin> set (system_accounts s)) \<and>
      (\<forall>cb \<in> set (currency_balances zao). cb_account_name cb \<notin> set (system_accounts s)))"

text \<open>The same block with other receipts.\<close>

definition with_transactions :: "block_state \<Rightarrow> transaction_receipt list \<Rightarrow> block_state" where
  "with_transactions bs rs = bs\<lparr>block := (block bs)\<lparr>transactions := rs\<rparr>\<rparr>"

text \<open>A run of \<open>on_applied_transaction\<close> calls.\<close>

definition apply_transactions ::
  "zmq_plugin_impl \<Rightarrow> transaction_trace list \<Rightarrow> zmq_plugin_impl" where
  "apply_transactions s ps = foldl (\<lambda>s' p. fst (on_applied_transaction s' p)) s ps"


text \<open>
  The specification's resource snapshot of an account: quota, usage and weights as the
  resource-limits service reports them, and the two limits computed for the account's
  greylist status.
\<close>

definition resource_snapshot :: "controller \<Rightarrow> name \<Rightarrow> resource_balance" where
  "resource_snapshot ch a =
     \<lparr> rb_account_name = a,
       ram_quota = fst (get_account_limits ch a),
       ram_usage = get_account_ram_usage ch a,
       net_weight = fst (snd (get_account_limits ch a)),
       cpu_weight = snd (snd (get_account_limits ch a)),
       net_limit = get_account_net_limit_ex ch a (\<not> is_resource_greylisted ch a),
       cpu_limit = get_account_cpu_limit_ex ch a (\<not> is_resource_greylisted ch a) \<rparr>"

text \<open>
  The specification's token balance of an account at a contract: nothing when the
  contract has no accounts table for that scope, otherwise one balance for every row of
  the table that is at least as long as a balance record and decodes to a valid symbol.
\<close>

definition token_balance :: "controller \<Rightarrow> name \<Rightarrow> name \<Rightarrow> currency_balance list" where
  "token_balance ch a c =
     (case find_table_id ch c a (N ''accounts'') of
        None \<Rightarrow> []
      | Some t \<Rightarrow>
          map (\<lambda>v. \<lparr> cb_account_name = a, contract = c, balance = unpack_asset ch v \<rparr>)
            (filter (\<lambda>v. 16 \<le> length v \<and> symbol_valid ch (sym (unpack_asset ch v)))
               (table_rows ch t)))"

text \<open>
  The object that is published for an action tree when the walker has found
  \<open>accounts\<close> and \<open>token_contracts\<close>: a snapshot for every account outside the system
  accounts, and the balances of every pair of such an account and a token contract.
\<close>

definition published_object ::
  "zmq_plugin_impl \<Rightarrow> action_trace \<Rightarrow> block_state \<Rightarrow> name list \<Rightarrow> name list
     \<Rightarrow> zmq_action_object" where
  "published_object s at bs accounts token_contracts =
     \<lparr> global_action_seq = global_sequence (receipt at),
       zao_block_num = block_num (block bs),
       block_time = timestamp (block bs),
       action_trace = to_variant_with_abi (chain_plug s) at,
       resource_balances =
         map (resource_snapshot (chain_plug s))
           (filter (\<lambda>a. a \<notin> set (system_accounts s)) accounts),
       currency_balances =
         concat (map (\<lambda>(a, c). token_balance (chain_plug s) a c)
           (List.product (filter (\<lambda>a. a \<notin> set (system_accounts s)) accounts)
              token_contracts)),
       last_irreversible_block = last_irreversible_block_num (chain_plug s) \<rparr>"

section \<open>Example data\<close>

text \<open>
  A chain without token tables, a plugin as its constructor leaves it, and a few action
  trees, traces, receipts and blocks on which the theorems below are instantiated.
\<close>

definition ex_chain :: controller where
  "ex_chain =
     \<lparr> to_variant_with_abi = (\<lambda>at. ''{}''),
       last_irreversible_block_num = 7,
       is_resource_greylisted = (\<lambda>a. False),
       get_account_limits = (\<lambda>a. (0, 0, 0)),
       get_account_net_limit_ex = (\<lambda>a g. \<lparr> used = 0, available = 0, max_limit = 0 \<rparr>),
       get_account_cpu_limit_ex = (\<lambda>a g. \<lparr> used = 0, available = 0, max_limit = 0 \<rparr>),
       get_account_ram_usage = (\<lambda>a. 0),
       find_table_id = (\<lambda>code scope table. None),
       table_rows = (\<lambda>t. []),
       unpack_asset = (\<lambda>v. \<lparr> amount = 0, sym = 0 \<rparr>),
       symbol_valid = (\<lambda>v. False) \<rparr>"

definition ex_plugin :: zmq_plugin_impl where
  "ex_plugin = zmq_plugin_impl_init ex_chain"

definition ex_action :: "string \<Rightarrow> string \<Rightarrow> string \<Rightarrow> action_trace list \<Rightarrow> action_trace" where
  "ex_action rcv acc nm inl =
     Action_trace \<lparr> receiver = N rcv, global_sequence = 1 \<rparr>
       \<lparr> account = N acc, name = N nm, data = Undecoded [] \<rparr> inl"

text \<open>A transfer of the system token from alice to bob, with its two notifications.\<close>

definition ex_transfer :: action_trace where
  "ex_transfer =
     ex_action ''eosio.token'' ''eosio.token'' ''transfer''
       [ex_action ''alice'' ''eosio.token'' ''transfer'' [],
        ex_action ''bob'' ''eosio.token'' ''transfer'' []]"

text \<open>An exchange that moves one token to alice and issues another to bob.\<close>

definition ex_trade :: action_trace where
  "ex_trade =
     ex_action ''dex'' ''dex'' ''trade''
       [ex_action ''alice'' ''tokena'' ''transfer'' [],
        ex_action ''bob'' ''tokenb'' ''issue'' []]"

text \<open>A blacklisted action with an inline transfer, alone and inside another action.\<close>

definition ex_tweet :: action_trace where
  "ex_tweet =
     ex_action ''blocktwitter'' ''blocktwitter'' ''tweet''
       [ex_action ''carol'' ''tokena'' ''transfer'' []]"

definition ex_nested :: action_trace where
  "ex_nested = ex_action ''alice'' ''alice'' ''hi'' [ex_tweet]"

definition ex_trace1 :: transaction_trace where
  "ex_trace1 =
     \<lparr> trace_id = [1],
       trace_receipt = Some \<lparr> status = executed, cpu_usage_us = 0, net_usage_words = 0 \<rparr>,
       action_traces = [ex_transfer] \<rparr>"

definition ex_trace2 :: transaction_trace where
  "ex_trace2 = \<lparr> trace_id = [2], trace_receipt = None, action_traces = [ex_trade] \<rparr>"

definition ex_receipt1 :: transaction_receipt where
  "ex_receipt1 = \<lparr> status = executed, cpu_usage_us = 0, net_usage_words = 0, trx = Trx_id [1] \<rparr>"

definition ex_receipt2 :: transaction_receipt where
  "ex_receipt2 = \<lparr> status = executed, cpu_usage_us = 0, net_usage_words = 0, trx = Trx_id [2] \<rparr>"

definition ex_receipt3 :: transaction_receipt where
  "ex_receipt3 =
     \<lparr> status = hard_fail, cpu_usage_us = 0, net_usage_words = 0,
       trx = Trx_packed \<lparr> packed_trx = [], packed_id = [3, 171] \<rparr> \<rparr>"

definition ex_block :: "32 word \<Rightarrow> transaction_receipt list \<Rightarrow> block_state" where
  "ex_block n rs =
     \<lparr> block = \<lparr> block_num = n, timestamp = 100, digest = [205], transactions = rs \<rparr> \<rparr>"

text \<open>What \<open>ex_chain\<close> reports for an account, and the object published for \<open>ex_transfer\<close>.\<close>

definition ex_resource_balance :: "name \<Rightarrow> resource_balance" where
  "ex_resource_balance a =
     \<lparr> rb_account_name = a, ram_quota = 0, ram_usage = 0, net_weight = 0, cpu_weight = 0,
       net_limit = \<lparr> used = 0, available = 0, max_limit = 0 \<rparr>,
       cpu_limit = \<lparr> used = 0, available = 0, max_limit = 0 \<rparr> \<rparr>"

definition ex_transfer_object :: "32 word \<Rightarrow> zmq_action_object" where
  "ex_transfer_object n =
     \<lparr> global_action_seq = 1, zao_block_num = n, block_time = 100, action_trace = ''{}'',
       resource_balances = [ex_resource_balance (N ''alice''), ex_resource_balance (N ''bob'')],
       currency_balances = [],
       last_irreversible_block = 7 \<rparr>"

definition ex_applied :: zmq_plugin_impl where
  "ex_applied = apply_transactions ex_plugin [ex_trace1, ex_trace2]"

text \<open>
  A chain on which alice holds a balance at the contract tokenb; the table has one row
  long enough to hold a balance and one that is too short.
\<close>

definition ex_chain_tokens :: controller where
  "ex_chain_tokens =
     ex_chain
       \<lparr> find_table_id :=
           (\<lambda>code scope table.
              if code = N ''tokenb'' \<and> scope = N ''alice'' \<and> table = N ''accounts''
              then Some 1 else None),
         table_rows := (\<lambda>t. if t = 1 then [replicate 16 0, [1, 2, 3]] else []),
         unpack_asset := (\<lambda>v. \<lparr> amount = 5, sym = 1 \<rparr>),
         symbol_valid := (\<lambda>v. v = 1) \<rparr>"

definition ex_plugin_tokens :: zmq_plugin_impl where
  "ex_plugin_tokens = zmq_plugin_impl_init ex_chain_tokens"

text \<open>
  A trace whose only action is the system contract's sellram with a payload that does
  not deserialise, its receipt, and the plugin after that trace was applied.
\<close>

definition ex_sellram :: action_trace where
  "ex_sellram = ex_action ''eosio'' ''eosio'' ''sellram'' []"

definition ex_trace4 :: transaction_trace where
  "ex_trace4 =
     \<lparr> trace_id = [4],
       trace_receipt = Some \<lparr> status = executed, cpu_usage_us = 0, net_usage_words = 0 \<rparr>,
       action_traces = [ex_sellram] \<rparr>"

definition ex_receipt4 :: transaction_receipt where
  "ex_receipt4 = \<lparr> status = executed, cpu_usage_us = 0, net_usage_words = 0, trx = Trx_id [4] \<rparr>"

definition ex_thrown :: zmq_plugin_impl where
  "ex_thrown = apply_transactions ex_plugin [ex_trace4]"

section \<open>Lemmas: the frame header\<close>

lemma length_int32_bytes: "length (int32_bytes w) = 4"
  by (simp add: int32_bytes_def)

lemma bytes_int32_int32_bytes: "bytes_int32 (int32_bytes w) = w"
proof -
  have "bit (bytes_int32 (int32_bytes w)) n = bit w n" if n: "n < 32" for n
  proof -
    consider "n < 8" | "8 \<le> n" "n < 16" | "16 \<le> n" "n < 24" | "24 \<le> n" "n < 32"
      using n by fastforce
    then show ?thesis
      by cases (auto simp add: bytes_int32_def int32_bytes_def bit_simps)
  qed
  then show ?thesis
    by (intro bit_word_eqI) simp
qed

section \<open>Lemmas: iteration that may throw\<close>

lemma for_each_append:
  "for_each body (xs @ ys) =
     (case for_each body xs of
        (es, Threw) \<Rightarrow> (es, Threw)
      | (es, Returned) \<Rightarrow> (case for_each body ys of (es', c) \<Rightarrow> (es @ es', c)))"
  by (induction xs) (auto split: prod.splits completion.splits)

lemma for_each_Returned:
  "snd (for_each body xs) = Returned \<Longrightarrow>
     fst (for_each body xs) = concat (map (\<lambda>x. fst (body x)) xs) \<and>
     (\<forall>x \<in> set xs. snd (body x) = Returned)"
  by (induction xs) (auto split: prod.splits completion.splits)

lemma for_each_all_Returned:
  "(\<forall>x \<in> set xs. snd (body x) = Returned) \<Longrightarrow> snd (for_each body xs) = Returned"
  by (induction xs) (auto split: prod.splits completion.splits)

lemma for_each_effects:
  "e \<in> set (fst (for_each body xs)) \<Longrightarrow> \<exists>x \<in> set xs. e \<in> set (fst (body x))"
  by (induction xs) (auto split: prod.splits completion.splits)

lemma for_each_skip:
  assumes "body r = (es, Returned)" and "filter P es = []"
  shows "snd (for_each body (rs1 @ r # rs2)) = snd (for_each body (rs1 @ rs2))"
    and "filter P (fst (for_each body (rs1 @ r # rs2))) = filter P (fst (for_each body (rs1 @ rs2)))"
  using assms by (auto simp: for_each_append split: prod.splits completion.splits)

section \<open>Lemmas: the walker\<close>

lemma set_set_insert: "set (set_insert x xs) = insert x (set xs)"
  by (simp add: set_insert_def set_insort_key insert_absorb)

lemma distinct_set_insert: "distinct xs \<Longrightarrow> distinct (set_insert x xs)"
  by (simp add: set_insert_def distinct_insort)

lemma sorted_set_insert: "sorted xs \<Longrightarrow> sorted (set_insert x xs)"
  by (simp add: set_insert_def sorted_insort)


lemma distinct_fold_set_insert: "distinct accs \<Longrightarrow> distinct (fold set_insert ns accs)"
  by (induction ns arbitrary: accs) (auto simp: distinct_set_insert)

text \<open>Whatever the case of the switch, it returns the set with some names inserted.\<close>

lemma system_action_accounts_fold:
  assumes "system_action_accounts a accs = Some accs'"
  shows "\<exists>ns. accs' = fold set_insert ns accs"
proof -
  define R where "R = (\<lambda>opt. \<forall>r. opt = Some r \<longrightarrow> (\<exists>ns. r = fold set_insert ns accs))"
  have R_if: "R x \<Longrightarrow> R y \<Longrightarrow> R (if c then x else y)" for c x y
    by simp
  have R_None: "R None"
    by (simp add: R_def)
  have R_0: "R (Some accs)"
    unfolding R_def by (auto intro: exI [of _ "[]"])
  have R_1: "R (Some (set_insert x accs))" for x
    unfolding R_def by (auto intro: exI [of _ "[x]"])
  have R_2: "R (Some (let acc = set_insert x accs in if c then set_insert y acc else acc))" for x y c
    unfolding R_def Let_def by (auto intro: exI [of _ "[x, y]"] exI [of _ "[x]"])
  have "R (system_action_accounts a accs)"
    unfolding system_action_accounts_def Let_def [of "name a"] Let_def [of "data a"]
    apply (intro R_if)
    apply (cases "data a"; simp only: action_data.case R_None R_0 R_1 R_2)+
    done
  with assms show ?thesis
    by (simp add: R_def)
qed

lemma visit_action_system:
  assumes "visit_action rcpt a st = Some st'" and "account a = system_account_name"
  shows "\<exists>ns. st' = (fold set_insert ns (set_insert (account a) (fst st)), snd st)"
proof -
  let ?accs = "if receiver rcpt \<noteq> account a
               then set_insert (receiver rcpt) (set_insert (account a) (fst st))
               else set_insert (account a) (fst st)"
  from assms obtain accs' where s: "system_action_accounts a ?accs = Some accs'"
    and st': "st' = (accs', snd st)"
    by (auto simp: visit_action_def Let_def split: option.splits if_splits)
  from system_action_accounts_fold [OF s] obtain ns where ns: "accs' = fold set_insert ns ?accs" ..
  show ?thesis
  proof (cases "receiver rcpt \<noteq> account a")
    case True
    with ns have "accs' = fold set_insert (receiver rcpt # ns) (set_insert (account a) (fst st))"
      by simp
    with st' show ?thesis by blast
  next
    case False
    with ns st' show ?thesis by auto
  qed
qed


lemma visit_action_tokens:
  assumes "visit_action rcpt a st = Some st'"
  shows "set (snd st') = set (snd st) \<union> (if is_token_action a then {account a} else {})"
  using assms
  by (auto simp: visit_action_def Let_def is_token_action_def set_set_insert
           split: if_splits option.splits)

lemma visit_action_distinct:
  assumes "visit_action rcpt a st = Some st'" and "distinct (fst st)" and "distinct (snd st)"
  shows "distinct (fst st') \<and> distinct (snd st')"
proof (cases "account a = system_account_name")
  case True
  from visit_action_system [OF assms(1) True] assms(2,3) show ?thesis
    by (auto simp: distinct_fold_set_insert distinct_set_insert)
next
  case False
  with assms show ?thesis
    by (auto simp: visit_action_def Let_def distinct_set_insert split: if_splits)
qed


lemma find_tokens:
  "find_accounts_and_tokens at st = Some st' \<Longrightarrow>
     set (snd st') = set (snd st) \<union> account ` {a \<in> set (actions_of at). is_token_action a}"
  "find_inline_traces ts st = Some st' \<Longrightarrow>
     set (snd st') = set (snd st) \<union> account ` {a \<in> set (actions_of_list ts). is_token_action a}"
proof (induction at st and ts st arbitrary: st' and st'
    rule: find_accounts_and_tokens_find_inline_traces.induct)
  case (1 rcpt a inl st)
  from "1.prems" obtain st1 where v: "visit_action rcpt a st = Some st1"
    and f: "find_inline_traces inl st1 = Some st'"
    by (auto split: option.splits)
  from "1.IH" [OF v f] visit_action_tokens [OF v] show ?case
    by auto
next
  case (2 st)
  then show ?case by simp
next
  case (3 iline rest st)
  from "3.prems" obtain st1 where v: "find_accounts_and_tokens iline st = Some st1"
    and f: "find_inline_traces rest st1 = Some st'"
    by (auto split: option.splits)
  from "3.IH"(1) [OF v] "3.IH"(2) [OF v f] show ?case
    by auto
qed

lemma find_distinct:
  "find_accounts_and_tokens at st = Some st' \<Longrightarrow> distinct (fst st) \<Longrightarrow> distinct (snd st) \<Longrightarrow>
     distinct (fst st') \<and> distinct (snd st')"
  "find_inline_traces ts st = Some st' \<Longrightarrow> distinct (fst st) \<Longrightarrow> distinct (snd st) \<Longrightarrow>
     distinct (fst st') \<and> distinct (snd st')"
proof (induction at st and ts st arbitrary: st' and st'
    rule: find_accounts_and_tokens_find_inline_traces.induct)
  case (1 rcpt a inl st)
  from "1.prems" obtain st1 where v: "visit_action rcpt a st = Some st1"
    and f: "find_inline_traces inl st1 = Some st'"
    by (auto split: option.splits)
  from visit_action_distinct [OF v "1.prems"(2,3)] "1.IH" [OF v f] show ?case
    by auto
next
  case (2 st)
  then show ?case by simp
next
  case (3 iline rest st)
  from "3.prems" obtain st1 where v: "find_accounts_and_tokens iline st = Some st1"
    and f: "find_inline_traces rest st1 = Some st'"
    by (auto split: option.splits)
  from "3.IH"(1) [OF v "3.prems"(2,3)] "3.IH"(2) [OF v f] show ?case
    by auto
qed

lemma sorted_fold_set_insert: "sorted accs \<Longrightarrow> sorted (fold set_insert ns accs)"
  by (induction ns arbitrary: accs) (auto simp: sorted_set_insert)

lemma visit_action_sorted:
  assumes "visit_action rcpt a st = Some st'" and "sorted (fst st)" and "sorted (snd st)"
  shows "sorted (fst st') \<and> sorted (snd st')"
proof (cases "account a = system_account_name")
  case True
  from visit_action_system [OF assms(1) True] assms(2,3) show ?thesis
    by (auto simp: sorted_fold_set_insert sorted_set_insert)
next
  case False
  with assms show ?thesis
    by (auto simp: visit_action_def Let_def sorted_set_insert split: if_splits)
qed

text \<open>The lists the walker returns are strictly ascending, as a \<open>std::set\<close> iterates.\<close>

lemma find_sorted:
  "find_accounts_and_tokens at st = Some st' \<Longrightarrow> sorted (fst st) \<Longrightarrow> sorted (snd st) \<Longrightarrow>
     sorted (fst st') \<and> sorted (snd st')"
  "find_inline_traces ts st = Some st' \<Longrightarrow> sorted (fst st) \<Longrightarrow> sorted (snd st) \<Longrightarrow>
     sorted (fst st') \<and> sorted (snd st')"
proof (induction at st and ts st arbitrary: st' and st'
    rule: find_accounts_and_tokens_find_inline_traces.induct)
  case (1 rcpt a inl st)
  from "1.prems" obtain st1 where v: "visit_action rcpt a st = Some st1"
    and f: "find_inline_traces inl st1 = Some st'"
    by (auto split: option.splits)
  from visit_action_sorted [OF v "1.prems"(2,3)] "1.IH" [OF v f] show ?case
    by auto
next
  case (2 st)
  then show ?case by simp
next
  case (3 iline rest st)
  from "3.prems" obtain st1 where v: "find_accounts_and_tokens iline st = Some st1"
    and f: "find_inline_traces rest st1 = Some st'"
    by (auto split: option.splits)
  from "3.IH"(1) [OF v "3.prems"(2,3)] "3.IH"(2) [OF v f] show ?case
    by auto
qed

lemma visit_action_token_step:
  assumes "visit_action rcpt a st = Some st'"
  shows "snd st' = (if is_token_action a then set_insert (account a) (snd st) else snd st)"
  using assms
  by (auto simp: visit_action_def Let_def is_token_action_def split: if_splits option.splits)

lemma visit_action_token_returns:
  "is_token_action a \<Longrightarrow> visit_action rcpt a st \<noteq> None"
  by (auto simp: visit_action_def Let_def is_token_action_def)

section \<open>Lemmas: on_action_trace\<close>

lemma token_loop_snd:
  "snd (token_loop ch a ts ze) = snd ze @ map (Call_add_currency_balances a) ts"
  by (induction ts arbitrary: ze) auto

lemma account_loop_snd:
  "snd (account_loop s accs toks ze) = snd ze @ lookup_calls s accs toks"
  by (induction accs arbitrary: ze)
     (auto simp: lookup_calls_def token_loop_snd is_account_of_interest_def)

lemma account_loop_state:
  assumes "system_accounts s = system_accounts s'" and "chain_plug s = chain_plug s'"
  shows "account_loop s accs toks ze = account_loop s' accs toks ze"
  using assms by (induction accs arbitrary: ze) (auto simp: is_account_of_interest_def)

lemma on_action_trace_state:
  assumes "system_accounts s = system_accounts s'" and "chain_plug s = chain_plug s'"
    and "blacklist_actions s = blacklist_actions s'"
  shows "on_action_trace s at bs = on_action_trace s' at bs"
  by (simp add: on_action_trace_def blacklisted_def Let_def assms
        account_loop_state [OF assms(1,2)] split: option.splits prod.splits)

lemma on_action_trace_block:
  assumes "block_num (block bs) = block_num (block bs')"
    and "timestamp (block bs) = timestamp (block bs')"
  shows "on_action_trace s at bs = on_action_trace s at bs'"
  by (simp add: on_action_trace_def assms)

lemma on_action_trace_fst:
  assumes "\<not> blacklisted s (act at)"
    and "find_accounts_and_tokens at ([], []) = Some (accs, toks)"
  shows "\<exists>zao. on_action_trace s at bs =
           (lookup_calls s accs toks @ [Socket_send (Action_object zao) MSGTYPE_ACTION_TRACE 0],
            Returned)"
  using assms by (simp add: on_action_trace_def Let_def account_loop_snd)

lemma on_action_trace_returns:
  "blacklisted s (act at) \<or> find_accounts_and_tokens at ([], []) \<noteq> None \<Longrightarrow>
     snd (on_action_trace s at bs) = Returned"
  by (auto simp: on_action_trace_def Let_def split: option.splits)

lemma sent_type_lookup_calls: "e \<in> set (lookup_calls s accs toks) \<Longrightarrow> sent_type e = None"
  by (auto simp: lookup_calls_def)

lemma on_action_trace_effects:
  assumes "e \<in> set (fst (on_action_trace s at bs))"
  shows "sent_type e = None \<or> sent_type e = Some MSGTYPE_ACTION_TRACE"
proof (cases "blacklisted s (act at)")
  case True
  with assms show ?thesis by (simp add: on_action_trace_def)
next
  case False
  show ?thesis
  proof (cases "find_accounts_and_tokens at ([], [])")
    case None
    with False assms show ?thesis by (simp add: on_action_trace_def)
  next
    case (Some p)
    obtain accs toks where "p = (accs, toks)" by (cases p)
    with Some on_action_trace_fst [OF False, of accs toks bs] assms show ?thesis
      by (auto dest: sent_type_lookup_calls)
  qed
qed

lemma count_list_currency_calls:
  "distinct toks \<Longrightarrow>
     count_list (map (Call_add_currency_balances a') toks) (Call_add_currency_balances a c) =
       (if a = a' \<and> c \<in> set toks then 1 else 0)"
  by (induction toks) auto

lemma count_list_currency_calls_resource:
  "count_list (map (Call_add_currency_balances a') toks) (Call_add_account_resource a) = 0"
  by (induction toks) auto

lemma count_lookup_calls_resource:
  "distinct accs \<Longrightarrow>
     count_list (lookup_calls s accs toks) (Call_add_account_resource a) =
       (if a \<in> set accs \<and> a \<notin> set (system_accounts s) then 1 else 0)"
  by (induction accs) (auto simp: lookup_calls_def count_list_currency_calls_resource)

lemma count_lookup_calls_currency:
  "distinct accs \<Longrightarrow> distinct toks \<Longrightarrow>
     count_list (lookup_calls s accs toks) (Call_add_currency_balances a c) =
       (if a \<in> set accs \<and> a \<notin> set (system_accounts s) \<and> c \<in> set toks then 1 else 0)"
  by (induction accs) (auto simp: lookup_calls_def count_list_currency_calls)

lemma lookup_calls_system:
  assumes "a \<in> set (system_accounts s)"
  shows "Call_add_account_resource a \<notin> set (lookup_calls s accs toks)"
    and "Call_add_currency_balances a c \<notin> set (lookup_calls s accs toks)"
  using assms by (auto simp: lookup_calls_def)

lemma add_account_resource_no_system:
  "no_system_balances s zao \<Longrightarrow> a \<notin> set (system_accounts s) \<Longrightarrow>
     no_system_balances s (add_account_resource ch zao a)"
  by (auto simp: no_system_balances_def add_account_resource_def Let_def split: prod.splits)

lemma add_currency_row_no_system:
  "no_system_balances s zao \<Longrightarrow> a \<notin> set (system_accounts s) \<Longrightarrow>
     no_system_balances s (add_currency_row ch a t v zao)"
  by (auto simp: no_system_balances_def add_currency_row_def Let_def)

lemma fold_add_currency_row_no_system:
  "no_system_balances s zao \<Longrightarrow> a \<notin> set (system_accounts s) \<Longrightarrow>
     no_system_balances s (fold (add_currency_row ch a t) vs zao)"
  by (induction vs arbitrary: zao) (auto simp: add_currency_row_no_system)

lemma add_currency_balances_no_system:
  "no_system_balances s zao \<Longrightarrow> a \<notin> set (system_accounts s) \<Longrightarrow>
     no_system_balances s (add_currency_balances ch zao a t)"
  by (auto simp: add_currency_balances_def fold_add_currency_row_no_system split: option.splits)

lemma token_loop_no_system:
  "no_system_balances s (fst ze) \<Longrightarrow> a \<notin> set (system_accounts s) \<Longrightarrow>
     no_system_balances s (fst (token_loop ch a ts ze))"
  by (induction ts arbitrary: ze) (auto simp: add_currency_balances_no_system)

lemma account_loop_no_system:
  "no_system_balances s (fst ze) \<Longrightarrow> no_system_balances s (fst (account_loop s accs toks ze))"
  by (induction accs arbitrary: ze)
     (auto simp: token_loop_no_system add_account_resource_no_system is_account_of_interest_def)

lemma on_action_trace_no_system:
  assumes "Socket_send (Action_object zao) t opts \<in> set (fst (on_action_trace s at bs))"
  shows "no_system_balances s zao"
proof -
  let ?z = "\<lparr> global_action_seq = global_sequence (receipt at),
              zao_block_num = block_num (block bs),
              block_time = timestamp (block bs),
              action_trace = to_variant_with_abi (chain_plug s) at,
              resource_balances = [],
              currency_balances = [],
              last_irreversible_block = 0 \<rparr>"
  have z: "no_system_balances s (fst (?z, [] :: effect list))"
    by (simp add: no_system_balances_def)
  have "no_system_balances s (fst (account_loop s accs toks (?z, [])))" for accs toks
    by (rule account_loop_no_system [OF z])
  then have *: "no_system_balances s
      ((fst (account_loop s accs toks (?z, [])))\<lparr>last_irreversible_block := l\<rparr>)" for accs toks l
    by (simp add: no_system_balances_def)
  from assms show ?thesis
    by (auto simp: on_action_trace_def Let_def account_loop_snd * dest: sent_type_lookup_calls
             split: if_splits option.splits prod.splits)
qed

lemma on_action_trace_calls:
  assumes "a \<in> set (system_accounts s)"
  shows "Call_add_account_resource a \<notin> set (fst (on_action_trace s at bs))"
    and "Call_add_currency_balances a c \<notin> set (fst (on_action_trace s at bs))"
proof -
  have "Call_add_account_resource a \<notin> set (fst (on_action_trace s at bs)) \<and>
        Call_add_currency_balances a c \<notin> set (fst (on_action_trace s at bs))"
  proof (cases "blacklisted s (act at)")
    case True
    then show ?thesis by (simp add: on_action_trace_def)
  next
    case False
    show ?thesis
    proof (cases "find_accounts_and_tokens at ([], [])")
      case None
      with False show ?thesis by (simp add: on_action_trace_def)
    next
      case (Some p)
      obtain accs toks where "p = (accs, toks)" by (cases p)
      with Some on_action_trace_fst [OF False, of accs toks bs] lookup_calls_system [OF assms]
      show ?thesis by auto
    qed
  qed
  then show "Call_add_account_resource a \<notin> set (fst (on_action_trace s at bs))"
    and "Call_add_currency_balances a c \<notin> set (fst (on_action_trace s at bs))"
    by simp_all
qed

section \<open>Lemmas: on_accepted_block\<close>

lemma on_receipt_end_block:
  "on_receipt (s\<lparr>end_block := n\<rparr>) bs r = on_receipt s bs r"
proof -
  have "on_action_trace (s\<lparr>end_block := n\<rparr>) at bs = on_action_trace s at bs" for at
    by (rule on_action_trace_state) simp_all
  then show ?thesis
    by (simp add: on_receipt_def Let_def split: option.splits)
qed

lemma on_receipt_block:
  assumes "block_num (block bs) = block_num (block bs')"
    and "timestamp (block bs) = timestamp (block bs')"
  shows "on_receipt s bs r = on_receipt s bs' r"
  by (simp add: on_receipt_def Let_def assms on_action_trace_block [OF assms] split: option.splits)

lemma on_receipt_cases:
  assumes "e \<in> set (fst (on_receipt s bs r))"
  shows "(\<exists>at. e \<in> set (fst (on_action_trace s at bs))) \<or> (\<exists>i. e = Ilog_missing_trace i) \<or>
         (\<exists>z. e = Socket_send (Failed_transaction_object z) MSGTYPE_FAILED_TX 0)"
  using assms
  by (auto simp: on_receipt_def Let_def split: if_splits option.splits dest: for_each_effects)

lemma on_receipt_effects:
  assumes "e \<in> set (fst (on_receipt s bs r))"
  shows "sent_type e = None \<or> sent_type e = Some MSGTYPE_ACTION_TRACE \<or>
         sent_type e = Some MSGTYPE_FAILED_TX"
  using on_receipt_cases [OF assms] on_action_trace_effects by fastforce

lemma on_accepted_block_effects:
  "fst (snd (on_accepted_block s bs)) =
     fork_effects s bs @ [accepted_effect bs] @
       fst (for_each (on_receipt s bs) (transactions (block bs)))"
  by (simp add: on_accepted_block_def Let_def on_receipt_end_block [abs_def]
        split: prod.splits completion.splits)

lemma on_accepted_block_completion:
  "snd (snd (on_accepted_block s bs)) =
     snd (for_each (on_receipt s bs) (transactions (block bs)))"
  by (simp add: on_accepted_block_def Let_def on_receipt_end_block [abs_def]
        split: prod.splits completion.splits)

lemma on_accepted_block_state:
  "fst (on_accepted_block s bs) =
     (if snd (for_each (on_receipt s bs) (transactions (block bs))) = Returned
      then s\<lparr>end_block := block_num (block bs), cached_traces := Map.empty\<rparr>
      else s\<lparr>end_block := block_num (block bs)\<rparr>)"
  by (simp add: on_accepted_block_def Let_def on_receipt_end_block [abs_def]
        split: prod.splits completion.splits)

lemma on_accepted_block_cases:
  assumes "e \<in> set (fst (snd (on_accepted_block s bs)))"
  shows "(\<exists>at. e \<in> set (fst (on_action_trace s at bs))) \<or> (\<exists>i. e = Ilog_missing_trace i) \<or>
         (\<exists>z. e = Socket_send (Failed_transaction_object z) MSGTYPE_FAILED_TX 0) \<or>
         e \<in> set (fork_effects s bs) \<or> e = accepted_effect bs"
proof -
  from assms consider "e \<in> set (fork_effects s bs)" | "e = accepted_effect bs"
    | "e \<in> set (fst (for_each (on_receipt s bs) (transactions (block bs))))"
    by (auto simp: on_accepted_block_effects)
  then show ?thesis
  proof cases
    case 3
    then obtain r where "e \<in> set (fst (on_receipt s bs r))"
      using for_each_effects by blast
    from on_receipt_cases [OF this] show ?thesis by blast
  qed simp_all
qed

text \<open>
  The handler returns whenever the payloads of the actions it walks deserialise: the
  hypothesis that it returns, in the theorems below, holds for every such block.
\<close>

lemma on_accepted_block_returns:
  assumes "\<forall>r \<in> set (transactions (block bs)). \<forall>t. cached_traces s (receipt_id r) = Some t \<longrightarrow>
             (\<forall>at \<in> set (action_traces t).
                blacklisted s (act at) \<or> find_accounts_and_tokens at ([], []) \<noteq> None)"
  shows "snd (snd (on_accepted_block s bs)) = Returned"
proof -
  have "snd (on_receipt s bs r) = Returned" if "r \<in> set (transactions (block bs))" for r
  proof (cases "status r = executed \<and>
      (\<exists>t. cached_traces s (receipt_id r) = Some t \<and> trace_receipt t \<noteq> None)")
    case True
    then obtain t where t: "cached_traces s (receipt_id r) = Some t" "trace_receipt t \<noteq> None"
      by blast
    with assms that have "\<forall>at \<in> set (action_traces t). snd (on_action_trace s at bs) = Returned"
      using on_action_trace_returns by blast
    from for_each_all_Returned [OF this] True t show ?thesis
      by (simp add: on_receipt_def)
  next
    case False
    then show ?thesis
      by (auto simp: on_receipt_def Let_def split: option.splits)
  qed
  then show ?thesis
    by (simp add: on_accepted_block_completion for_each_all_Returned)
qed

section \<open>Evaluation of the example data\<close>

lemma N_values:
  "N ''alice'' = 3773036822876127232"
  "N ''bob'' = 4399453885987553280"
  "N ''carol'' = 4733081447982694400"
  "N ''dex'' = 5384616304474849280"
  "N ''tokena'' = 14781000447330091008"
  "N ''tokenb'' = 14781000464509960192"
  "N ''blocktwitter'' = 4352879018212480368"
  "N ''tweet'' = 14921741131141087232"
  "N ''hi'' = 7746191359077253120"
  "N ''trade'' = 14829391500256739328"
  "N ''transfer'' = 14829575313431724032"
  "N ''issue'' = 8516769789752901632"
  "N ''open'' = 11913481165836648448"
  "N ''onblock'' = 11875739475730497536"
  "N ''eosio'' = 6138663577826885632"
  "N ''eosio.msig'' = 6138663587900751872"
  "N ''eosio.token'' = 6138663591592764928"
  "N ''eosio.ram'' = 6138663590285017088"
  "N ''eosio.ramfee'' = 6138663590285202592"
  "N ''eosio.stake'' = 6138663591134630912"
  "N ''eosio.vpay'' = 6138663592678359040"
  "N ''eosio.bpay'' = 6138663581940940800"
  "N ''eosio.saving'' = 6138663590826845888"
  by (simp_all add: N_def char_to_symbol_def)

lemma ex_system_accounts:
  "system_accounts ex_plugin =
     [N ''eosio'', N ''eosio.bpay'', N ''eosio.msig'', N ''eosio.ram'', N ''eosio.ramfee'',
      N ''eosio.saving'', N ''eosio.stake'', N ''eosio.token'', N ''eosio.vpay'']"
  by (simp add: ex_plugin_def zmq_plugin_impl_init_def sys_acc_names_def system_account_name_def
        set_insert_def Let_def N_values)

lemma ex_blacklist:
  "blacklist_actions ex_plugin (N ''eosio'') = Some [N ''onblock'']"
  "blacklist_actions ex_plugin (N ''blocktwitter'') = Some [N ''tweet'']"
  "blacklist_actions ex_plugin (N ''alice'') = None"
  "blacklist_actions ex_plugin (N ''dex'') = None"
  "blacklist_actions ex_plugin (N ''eosio.token'') = None"
  by (simp_all add: ex_plugin_def zmq_plugin_impl_init_def map_emplace_def system_account_name_def
        set_insert_def Let_def N_values)

lemma ex_find_transfer:
  "find_accounts_and_tokens ex_transfer ([], []) =
     Some ([N ''alice'', N ''bob'', N ''eosio.token''], [N ''eosio.token''])"
  by (simp add: ex_transfer_def ex_action_def visit_action_def system_account_name_def
        set_insert_def Let_def N_values)

lemma ex_find_trade:
  "find_accounts_and_tokens ex_trade ([], []) =
     Some ([N ''alice'', N ''bob'', N ''dex'', N ''tokena'', N ''tokenb''],
           [N ''tokena'', N ''tokenb''])"
  by (simp add: ex_trade_def ex_action_def visit_action_def system_account_name_def
        set_insert_def Let_def N_values)




lemma ex_block_sel:
  "block_num (block (ex_block n rs)) = n"
  "timestamp (block (ex_block n rs)) = 100"
  "digest (block (ex_block n rs)) = [205]"
  "transactions (block (ex_block n rs)) = rs"
  by (simp_all add: ex_block_def)

lemma ex_receipt3_effects:
  "on_receipt s (ex_block n rs) ex_receipt3 =
     ([Socket_send
         (Failed_transaction_object
            \<lparr> trx_id = ''03ab'', zfto_block_num = n, status_name = hard_fail, status_int = 2 \<rparr>)
         MSGTYPE_FAILED_TX 0],
      Returned)"
  by (simp add: on_receipt_def ex_receipt3_def ex_block_sel receipt_id_def sha256_str_def
        hex_digit_def)

lemma ex_trace_sel:
  "trace_id ex_trace1 = [1]" "trace_receipt ex_trace1 \<noteq> None" "action_traces ex_trace1 = [ex_transfer]"
  "trace_id ex_trace2 = [2]" "trace_receipt ex_trace2 = None"
  by (simp_all add: ex_trace1_def ex_trace2_def)

lemma ex_receipt_sel:
  "status ex_receipt1 = executed" "receipt_id ex_receipt1 = [1]"
  "status ex_receipt2 = executed" "receipt_id ex_receipt2 = [2]"
  "status ex_receipt3 = hard_fail" "receipt_id ex_receipt3 = [3, 171]"
  by (simp_all add: ex_receipt1_def ex_receipt2_def ex_receipt3_def receipt_id_def)

lemma ex_applied_sel:
  "cached_traces ex_applied = Map.empty([1] \<mapsto> ex_trace1)"
  "system_accounts ex_applied = system_accounts ex_plugin"
  "blacklist_actions ex_applied = blacklist_actions ex_plugin"
  "chain_plug ex_applied = ex_chain"
  "chain_plug ex_plugin = ex_chain"
  "end_block ex_applied = 0"
  by (simp_all add: ex_applied_def apply_transactions_def on_applied_transaction_def ex_trace_sel
        ex_plugin_def zmq_plugin_impl_init_def)

lemma ex_action_sel:
  "act (ex_action rcv acc nm inl) = \<lparr> account = N acc, name = N nm, data = Undecoded [] \<rparr>"
  "receipt (ex_action rcv acc nm inl) = \<lparr> receiver = N rcv, global_sequence = 1 \<rparr>"
  "inline_traces (ex_action rcv acc nm inl) = inl"
  by (simp_all add: ex_action_def)

lemma on_action_trace_unfold:
  assumes "\<not> blacklisted s (act at)"
    and "find_accounts_and_tokens at ([], []) = Some (accs, toks)"
  shows "on_action_trace s at bs =
           (lookup_calls s accs toks @
            [Socket_send
               (Action_object
                  ((fst (account_loop s accs toks
                      (\<lparr> global_action_seq = global_sequence (receipt at),
                         zao_block_num = block_num (block bs),
                         block_time = timestamp (block bs),
                         action_trace = to_variant_with_abi (chain_plug s) at,
                         resource_balances = [],
                         currency_balances = [],
                         last_irreversible_block = 0 \<rparr>, [])))
                   \<lparr>last_irreversible_block := last_irreversible_block_num (chain_plug s)\<rparr>))
               MSGTYPE_ACTION_TRACE 0],
            Returned)"
  using assms by (simp add: on_action_trace_def Let_def account_loop_snd)

lemma ex_blacklisted:
  "\<not> blacklisted ex_plugin (act ex_transfer)"
  "\<not> blacklisted ex_plugin (act ex_trade)"
  "\<not> blacklisted ex_plugin (act ex_nested)"
  "blacklisted ex_plugin (act ex_tweet)"
  by (simp_all add: blacklisted_def ex_transfer_def ex_trade_def ex_nested_def ex_tweet_def
        ex_action_sel ex_plugin_def zmq_plugin_impl_init_def map_emplace_def
        system_account_name_def set_insert_def N_values)

lemma ex_lookup_calls_transfer:
  "lookup_calls ex_plugin [N ''alice'', N ''bob'', N ''eosio.token''] [N ''eosio.token''] =
     [Call_add_account_resource (N ''alice''),
      Call_add_currency_balances (N ''alice'') (N ''eosio.token''),
      Call_add_account_resource (N ''bob''),
      Call_add_currency_balances (N ''bob'') (N ''eosio.token'')]"
  by (simp add: lookup_calls_def ex_system_accounts N_values)

lemma ex_transfer_effects:
  "on_action_trace ex_plugin ex_transfer (ex_block n rs) =
     ([Call_add_account_resource (N ''alice''),
       Call_add_currency_balances (N ''alice'') (N ''eosio.token''),
       Call_add_account_resource (N ''bob''),
       Call_add_currency_balances (N ''bob'') (N ''eosio.token''),
       Socket_send (Action_object (ex_transfer_object n)) MSGTYPE_ACTION_TRACE 0],
      Returned)"
proof -
  have r: "receipt ex_transfer = \<lparr> receiver = N ''eosio.token'', global_sequence = 1 \<rparr>"
    by (simp add: ex_transfer_def ex_action_sel)
  have z: "(fst (account_loop ex_plugin [N ''alice'', N ''bob'', N ''eosio.token''] [N ''eosio.token'']
                   (\<lparr> global_action_seq = 1, zao_block_num = n, block_time = 100,
                      action_trace = ''{}'', resource_balances = [], currency_balances = [],
                      last_irreversible_block = 0 \<rparr>, [])))
             \<lparr>last_irreversible_block := 7\<rparr> = ex_transfer_object n"
    by (simp add: is_account_of_interest_def ex_system_accounts ex_applied_sel
          add_account_resource_def add_currency_balances_def ex_chain_def
          ex_transfer_object_def ex_resource_balance_def N_values)
  have c: "to_variant_with_abi ex_chain ex_transfer = ''{}''" "last_irreversible_block_num ex_chain = 7"
    by (simp_all add: ex_chain_def)
  show ?thesis
    unfolding on_action_trace_unfold [OF ex_blacklisted(1) ex_find_transfer]
    by (simp only: ex_lookup_calls_transfer r ex_block_sel ex_applied_sel c
          action_receipt.simps z append.simps)
qed

lemma ex_receipt1_effects:
  "on_receipt ex_applied (ex_block n rs) ex_receipt1 =
     ([Call_add_account_resource (N ''alice''),
       Call_add_currency_balances (N ''alice'') (N ''eosio.token''),
       Call_add_account_resource (N ''bob''),
       Call_add_currency_balances (N ''bob'') (N ''eosio.token''),
       Socket_send (Action_object (ex_transfer_object n)) MSGTYPE_ACTION_TRACE 0],
      Returned)"
proof -
  have "on_action_trace ex_applied ex_transfer (ex_block n rs) =
        on_action_trace ex_plugin ex_transfer (ex_block n rs)"
    by (rule on_action_trace_state) (simp_all add: ex_applied_sel)
  then show ?thesis
    by (simp add: on_receipt_def ex_receipt_sel ex_applied_sel ex_trace_sel ex_transfer_effects)
qed

lemma ex_receipt2_effects:
  "on_receipt ex_applied (ex_block n rs) ex_receipt2 = ([Ilog_missing_trace [2]], Returned)"
  by (simp add: on_receipt_def ex_receipt_sel ex_applied_sel)

lemma ex_block_effects:
  "on_accepted_block ex_applied (ex_block 10 [ex_receipt1, ex_receipt2, ex_receipt3]) =
     (ex_applied\<lparr>end_block := 10, cached_traces := Map.empty\<rparr>,
      [Socket_send
         (Accepted_block_object \<lparr> accepted_block_num = 10, accepted_block_digest = [205] \<rparr>)
         MSGTYPE_ACCEPTED_BLOCK 0,
       Call_add_account_resource (N ''alice''),
       Call_add_currency_balances (N ''alice'') (N ''eosio.token''),
       Call_add_account_resource (N ''bob''),
       Call_add_currency_balances (N ''bob'') (N ''eosio.token''),
       Socket_send (Action_object (ex_transfer_object 10)) MSGTYPE_ACTION_TRACE 0,
       Ilog_missing_trace [2],
       Socket_send
         (Failed_transaction_object
            \<lparr> trx_id = ''03ab'', zfto_block_num = 10, status_name = hard_fail, status_int = 2 \<rparr>)
         MSGTYPE_FAILED_TX 0],
      Returned)"
proof -
  have "fst (on_accepted_block ex_applied (ex_block 10 [ex_receipt1, ex_receipt2, ex_receipt3])) =
          ex_applied\<lparr>end_block := 10, cached_traces := Map.empty\<rparr>"
    and "fst (snd (on_accepted_block ex_applied (ex_block 10 [ex_receipt1, ex_receipt2, ex_receipt3]))) =
          [Socket_send
             (Accepted_block_object \<lparr> accepted_block_num = 10, accepted_block_digest = [205] \<rparr>)
             MSGTYPE_ACCEPTED_BLOCK 0,
           Call_add_account_resource (N ''alice''),
           Call_add_currency_balances (N ''alice'') (N ''eosio.token''),
           Call_add_account_resource (N ''bob''),
           Call_add_currency_balances (N ''bob'') (N ''eosio.token''),
           Socket_send (Action_object (ex_transfer_object 10)) MSGTYPE_ACTION_TRACE 0,
           Ilog_missing_trace [2],
           Socket_send
             (Failed_transaction_object
                \<lparr> trx_id = ''03ab'', zfto_block_num = 10, status_name = hard_fail, status_int = 2 \<rparr>)
             MSGTYPE_FAILED_TX 0]"
    and "snd (snd (on_accepted_block ex_applied (ex_block 10 [ex_receipt1, ex_receipt2, ex_receipt3]))) =
          Returned"
    by (simp_all add: on_accepted_block_state on_accepted_block_effects on_accepted_block_completion
          ex_block_sel ex_receipt1_effects ex_receipt2_effects ex_receipt3_effects
          fork_effects_def accepted_effect_def ex_applied_sel)
  then show ?thesis
    by (metis prod.collapse)
qed

section \<open>Lemmas: the nodes of an action tree\<close>





section \<open>Lemmas: the published object\<close>

lemma add_account_resource_snapshot:
  "add_account_resource ch zao a =
     zao\<lparr>resource_balances := resource_balances zao @ [resource_snapshot ch a]\<rparr>"
  by (simp add: add_account_resource_def resource_snapshot_def Let_def split: prod.splits)

lemma fold_add_currency_row:
  "fold (add_currency_row ch a c) vs zao =
     zao\<lparr>currency_balances := currency_balances zao @
       map (\<lambda>v. \<lparr> cb_account_name = a, contract = c, balance = unpack_asset ch v \<rparr>)
         (filter (\<lambda>v. 16 \<le> length v \<and> symbol_valid ch (sym (unpack_asset ch v))) vs)\<rparr>"
  by (induction vs arbitrary: zao) (simp_all add: add_currency_row_def Let_def)

lemma add_currency_balances_token_balance:
  "add_currency_balances ch zao a c =
     zao\<lparr>currency_balances := currency_balances zao @ token_balance ch a c\<rparr>"
  by (simp add: add_currency_balances_def token_balance_def fold_add_currency_row
        split: option.splits)

lemma token_loop_fst:
  "fst (token_loop ch a ts ze) =
     (fst ze)\<lparr>currency_balances := currency_balances (fst ze) @
        concat (map (token_balance ch a) ts)\<rparr>"
  by (induction ts arbitrary: ze) (simp_all add: add_currency_balances_token_balance)

lemma account_loop_fst:
  "fst (account_loop s accs toks ze) =
     (fst ze)\<lparr>resource_balances := resource_balances (fst ze) @
         map (resource_snapshot (chain_plug s)) (filter (\<lambda>a. a \<notin> set (system_accounts s)) accs),
       currency_balances := currency_balances (fst ze) @
         concat (map (\<lambda>a. concat (map (token_balance (chain_plug s) a) toks))
           (filter (\<lambda>a. a \<notin> set (system_accounts s)) accs))\<rparr>"
  by (induction accs arbitrary: ze)
     (simp_all add: token_loop_fst add_account_resource_snapshot is_account_of_interest_def)

lemma concat_product:
  "concat (map (\<lambda>a. concat (map (f a) ys)) xs) =
     concat (map (\<lambda>(a, c). f a c) (List.product xs ys))"
  by (induction xs) (simp_all add: comp_def)

lemma on_action_trace_published:
  assumes "\<not> blacklisted s (act at)"
    and "find_accounts_and_tokens at ([], []) = Some (accs, toks)"
  shows "on_action_trace s at bs =
           (lookup_calls s accs toks @
              [Socket_send (Action_object (published_object s at bs accs toks))
                 MSGTYPE_ACTION_TRACE 0],
            Returned)"
  using assms
  by (simp add: on_action_trace_def Let_def account_loop_snd account_loop_fst concat_product
        published_object_def)

section \<open>Evaluation of the example data, continued\<close>

lemma N_values_system:
  "N ''newaccount'' = 11148770977341390848"
  "N ''setcode'' = 14029427681804681216"
  "N ''setabi'' = 14029385431137648640"
  "N ''updateauth'' = 15371467950649982976"
  "N ''deleteauth'' = 5378050746259030016"
  "N ''linkauth'' = 10063015651234021376"
  "N ''unlinkauth'' = 15340080295291076608"
  "N ''buyrambytes'' = 4520896358299381760"
  "N ''buyram'' = 4520896354024685568"
  "N ''sellram'' = 14025084013874511872"
  by (simp_all add: N_def char_to_symbol_def)

lemma ex_tokens_sel:
  "system_accounts ex_plugin_tokens = system_accounts ex_plugin"
  "blacklist_actions ex_plugin_tokens = blacklist_actions ex_plugin"
  "chain_plug ex_plugin_tokens = ex_chain_tokens"
  by (simp_all add: ex_plugin_tokens_def ex_plugin_def zmq_plugin_impl_init_def)

lemma ex_tokens_blacklisted:
  "\<not> blacklisted ex_plugin_tokens (act ex_trade)"
  using ex_blacklisted(2) by (simp add: blacklisted_def ex_tokens_sel)

lemma ex_resource_snapshot:
  "resource_snapshot ex_chain_tokens a = ex_resource_balance a"
  "resource_snapshot ex_chain a = ex_resource_balance a"
  by (simp_all add: resource_snapshot_def ex_resource_balance_def ex_chain_tokens_def ex_chain_def)

lemma ex_token_balance:
  "token_balance ex_chain_tokens a c =
     (if c = N ''tokenb'' \<and> a = N ''alice''
      then [\<lparr> cb_account_name = N ''alice'', contract = N ''tokenb'',
               balance = \<lparr> amount = 5, sym = 1 \<rparr> \<rparr>]
      else [])"
  by (simp add: token_balance_def ex_chain_tokens_def ex_chain_def)

lemma ex_thrown_sel:
  "cached_traces ex_thrown = Map.empty([4] \<mapsto> ex_trace4)"
  "system_accounts ex_thrown = system_accounts ex_plugin"
  "blacklist_actions ex_thrown = blacklist_actions ex_plugin"
  "chain_plug ex_thrown = ex_chain"
  "end_block ex_thrown = 0"
  by (simp_all add: ex_thrown_def apply_transactions_def on_applied_transaction_def ex_trace4_def
        ex_plugin_def zmq_plugin_impl_init_def)

lemma ex_receipt4_sel:
  "status ex_receipt4 = executed" "receipt_id ex_receipt4 = [4]"
  "action_traces ex_trace4 = [ex_sellram]" "trace_receipt ex_trace4 \<noteq> None"
  by (simp_all add: ex_receipt4_def ex_trace4_def receipt_id_def)

lemma ex_sellram_throws:
  "on_action_trace ex_thrown ex_sellram bs = ([], Threw)"
proof -
  have b: "\<not> blacklisted ex_thrown (act ex_sellram)"
    by (simp add: blacklisted_def ex_sellram_def ex_action_sel ex_thrown_sel ex_plugin_def
          zmq_plugin_impl_init_def map_emplace_def system_account_name_def set_insert_def
          N_values N_values_system)
  have f: "find_accounts_and_tokens ex_sellram ([], []) = None"
    by (simp add: ex_sellram_def ex_action_def visit_action_def system_action_accounts_def
          system_account_name_def set_insert_def Let_def N_values N_values_system)
  from b f show ?thesis
    by (simp add: on_action_trace_def)
qed

lemma ex_receipt4_throws:
  "on_receipt ex_thrown bs ex_receipt4 = ([], Threw)"
  by (simp add: on_receipt_def ex_receipt4_def receipt_id_def ex_thrown_sel ex_trace4_def
        ex_sellram_throws)

lemma ex_thrown_block:
  "on_accepted_block ex_thrown (ex_block 10 (ex_receipt4 # rs)) =
     (ex_thrown\<lparr>end_block := 10\<rparr>,
      [Socket_send
         (Accepted_block_object \<lparr> accepted_block_num = 10, accepted_block_digest = [205] \<rparr>)
         MSGTYPE_ACCEPTED_BLOCK 0],
      Threw)"
proof -
  have "fst (on_accepted_block ex_thrown (ex_block 10 (ex_receipt4 # rs))) =
          ex_thrown\<lparr>end_block := 10\<rparr>"
    and "fst (snd (on_accepted_block ex_thrown (ex_block 10 (ex_receipt4 # rs)))) =
          [Socket_send
             (Accepted_block_object \<lparr> accepted_block_num = 10, accepted_block_digest = [205] \<rparr>)
             MSGTYPE_ACCEPTED_BLOCK 0]"
    and "snd (snd (on_accepted_block ex_thrown (ex_block 10 (ex_receipt4 # rs)))) = Threw"
    by (simp_all add: on_accepted_block_state on_accepted_block_effects on_accepted_block_completion
          ex_block_sel ex_receipt4_throws fork_effects_def accepted_effect_def ex_thrown_sel)
  then show ?thesis
    by (metis prod.collapse)
qed

section \<open>The claims\<close>

text \<open>
  Claim C1. For every call of \<open>on_accepted_block\<close> with a block of number \<open>n\<close>: a Fork
  message carrying \<open>n\<close> is sent if and only if \<open>n \<le> _end_block\<close> at the start of the call;
  it is then the first effect of the call and the only message of type Fork; in every
  case the AcceptedBlock message carrying \<open>n\<close> and the block's digest follows, no later
  message has type Fork or AcceptedBlock, and \<open>_end_block\<close> is \<open>n\<close> afterwards.
\<close>

theorem on_accepted_block_fork:
  "\<exists>rest.
     fst (snd (on_accepted_block s bs)) =
       (if block_num (block bs) \<le> end_block s
        then [Socket_send (Fork_block_object \<lparr> invalid_block_num = block_num (block bs) \<rparr>)
                MSGTYPE_FORK 0]
        else []) @
       [Socket_send
          (Accepted_block_object
             \<lparr> accepted_block_num = block_num (block bs),
               accepted_block_digest = digest (block bs) \<rparr>)
          MSGTYPE_ACCEPTED_BLOCK 0] @ rest
     \<and> (\<forall>e \<in> set rest. sent_type e \<noteq> Some MSGTYPE_FORK \<and> sent_type e \<noteq> Some MSGTYPE_ACCEPTED_BLOCK)
     \<and> end_block (fst (on_accepted_block s bs)) = block_num (block bs)"
proof -
  let ?rest = "fst (for_each (on_receipt s bs) (transactions (block bs)))"
  have "sent_type e \<noteq> Some MSGTYPE_FORK \<and> sent_type e \<noteq> Some MSGTYPE_ACCEPTED_BLOCK"
    if "e \<in> set ?rest" for e
  proof -
    from that obtain r where "e \<in> set (fst (on_receipt s bs r))"
      using for_each_effects by blast
    from on_receipt_effects [OF this] show ?thesis
      by (auto simp: MSGTYPE_FORK_def MSGTYPE_ACCEPTED_BLOCK_def MSGTYPE_ACTION_TRACE_def
            MSGTYPE_FAILED_TX_def)
  qed
  moreover have "fst (snd (on_accepted_block s bs)) =
       (if block_num (block bs) \<le> end_block s
        then [Socket_send (Fork_block_object \<lparr> invalid_block_num = block_num (block bs) \<rparr>)
                MSGTYPE_FORK 0]
        else []) @
       [Socket_send
          (Accepted_block_object
             \<lparr> accepted_block_num = block_num (block bs),
               accepted_block_digest = digest (block bs) \<rparr>)
          MSGTYPE_ACCEPTED_BLOCK 0] @ ?rest"
    by (simp add: on_accepted_block_effects fork_effects_def accepted_effect_def)
  moreover have "end_block (fst (on_accepted_block s bs)) = block_num (block bs)"
    by (simp add: on_accepted_block_state)
  ultimately show ?thesis
    by blast
qed

theorem on_accepted_block_fork_witness:
  "\<not> block_num (block (ex_block 10 [ex_receipt1, ex_receipt2, ex_receipt3])) \<le> end_block ex_applied \<and>
   hd (fst (snd (on_accepted_block ex_applied (ex_block 10 [ex_receipt1, ex_receipt2, ex_receipt3])))) =
     Socket_send
       (Accepted_block_object \<lparr> accepted_block_num = 10, accepted_block_digest = [205] \<rparr>)
       MSGTYPE_ACCEPTED_BLOCK 0 \<and>
   fst (on_accepted_block ex_applied (ex_block 10 [ex_receipt1, ex_receipt2, ex_receipt3])) =
     ex_applied\<lparr>end_block := 10, cached_traces := Map.empty\<rparr> \<and>
   block_num (block (ex_block 9 [ex_receipt3]))
     \<le> end_block (ex_applied\<lparr>end_block := 10, cached_traces := Map.empty\<rparr>) \<and>
   fst (snd (on_accepted_block (ex_applied\<lparr>end_block := 10, cached_traces := Map.empty\<rparr>)
               (ex_block 9 [ex_receipt3]))) =
     [Socket_send (Fork_block_object \<lparr> invalid_block_num = 9 \<rparr>) MSGTYPE_FORK 0,
      Socket_send
        (Accepted_block_object \<lparr> accepted_block_num = 9, accepted_block_digest = [205] \<rparr>)
        MSGTYPE_ACCEPTED_BLOCK 0,
      Socket_send
        (Failed_transaction_object
           \<lparr> trx_id = ''03ab'', zfto_block_num = 9, status_name = hard_fail, status_int = 2 \<rparr>)
        MSGTYPE_FAILED_TX 0] \<and>
   sent_type
     (Socket_send
        (Failed_transaction_object
           \<lparr> trx_id = ''03ab'', zfto_block_num = 9, status_name = hard_fail, status_int = 2 \<rparr>)
        MSGTYPE_FAILED_TX 0) = Some 4 \<and>
   end_block (fst (on_accepted_block (ex_applied\<lparr>end_block := 10, cached_traces := Map.empty\<rparr>)
                     (ex_block 9 [ex_receipt3]))) = 9"
  using on_accepted_block_fork
          [of "ex_applied\<lparr>end_block := 10, cached_traces := Map.empty\<rparr>" "ex_block 9 [ex_receipt3]"]
    on_accepted_block_fork [of ex_applied "ex_block 10 [ex_receipt1, ex_receipt2, ex_receipt3]"]
  by (simp add: ex_block_effects on_accepted_block_effects on_accepted_block_state fork_effects_def
        accepted_effect_def ex_receipt3_effects ex_block_sel ex_applied_sel MSGTYPE_FAILED_TX_def)




text \<open>
  Claim C3. After every call of \<open>on_accepted_block\<close> that returns, the trace cache is
  empty, whatever the block holds and whether or not a fork was reported; in particular
  after any run of \<open>on_applied_transaction\<close> calls followed by one \<open>on_accepted_block\<close>.
\<close>

theorem cache_empty_after_accepted_block:
  assumes "snd (snd (on_accepted_block (apply_transactions s ps) bs)) = Returned"
  shows "cached_traces (fst (on_accepted_block (apply_transactions s ps) bs)) = Map.empty"
  using assms by (simp add: on_accepted_block_state on_accepted_block_completion)

theorem cache_empty_after_accepted_block_witness:
  "cached_traces (apply_transactions ex_plugin [ex_trace1, ex_trace2]) [1] = Some ex_trace1 \<and>
   snd (snd (on_accepted_block (apply_transactions ex_plugin [ex_trace1, ex_trace2])
               (ex_block 10 [ex_receipt1, ex_receipt2, ex_receipt3]))) = Returned \<and>
   cached_traces (fst (on_accepted_block (apply_transactions ex_plugin [ex_trace1, ex_trace2])
                         (ex_block 10 [ex_receipt1, ex_receipt2, ex_receipt3]))) = Map.empty"
  using cache_empty_after_accepted_block
          [of ex_plugin "[ex_trace1, ex_trace2]" "ex_block 10 [ex_receipt1, ex_receipt2, ex_receipt3]"]
  by (simp add: ex_block_effects [unfolded ex_applied_def] ex_applied_sel [unfolded ex_applied_def])

text \<open>
  Claim C4, as amended. For every receipt of an accepted block whose status is not
  \<open>executed\<close> and that the loop reaches, that is when the processing of every earlier
  receipt of the block returns, the handler sends, at the place of that receipt among its
  effects, exactly one message: the FailedTransaction message with the transaction
  identifier, the block number, the status and the status as an integer, and no
  ActionTrace message; it then goes on with the receipts that follow.
\<close>

theorem failed_transaction_event:
  assumes "status r \<noteq> executed"
    and "transactions (block bs) = rs1 @ r # rs2"
    and "snd (for_each (on_receipt s bs) rs1) = Returned"
  shows "on_receipt s bs r =
           ([Socket_send
               (Failed_transaction_object
                  \<lparr> trx_id = sha256_str (receipt_id r),
                    zfto_block_num = block_num (block bs),
                    status_name = status r,
                    status_int = status_to_uint8 (status r) \<rparr>)
               MSGTYPE_FAILED_TX 0],
            Returned) \<and>
         fst (snd (on_accepted_block s bs)) =
           fork_effects s bs @ [accepted_effect bs] @
           fst (for_each (on_receipt s bs) rs1) @
           [Socket_send
              (Failed_transaction_object
                 \<lparr> trx_id = sha256_str (receipt_id r),
                   zfto_block_num = block_num (block bs),
                   status_name = status r,
                   status_int = status_to_uint8 (status r) \<rparr>)
              MSGTYPE_FAILED_TX 0] @
           fst (for_each (on_receipt s bs) rs2) \<and>
         snd (snd (on_accepted_block s bs)) = snd (for_each (on_receipt s bs) rs2)"
proof -
  let ?failed = "Socket_send
      (Failed_transaction_object
         \<lparr> trx_id = sha256_str (receipt_id r),
           zfto_block_num = block_num (block bs),
           status_name = status r,
           status_int = status_to_uint8 (status r) \<rparr>)
      MSGTYPE_FAILED_TX 0"
  have body: "on_receipt s bs r = ([?failed], Returned)"
    using assms(1) by (simp add: on_receipt_def Let_def)
  obtain es1 where es1: "for_each (on_receipt s bs) rs1 = (es1, Returned)"
    using assms(3) by (cases "for_each (on_receipt s bs) rs1") simp
  obtain es2 c2 where es2: "for_each (on_receipt s bs) rs2 = (es2, c2)"
    by (cases "for_each (on_receipt s bs) rs2")
  have "for_each (on_receipt s bs) (rs1 @ r # rs2) = (es1 @ [?failed] @ es2, c2)"
    by (simp add: for_each_append es1 es2 body)
  with body es1 es2 show ?thesis
    by (simp add: on_accepted_block_effects on_accepted_block_completion assms(2))
qed

theorem failed_transaction_event_witness:
  "status ex_receipt3 \<noteq> executed \<and>
   transactions (block (ex_block 10 [ex_receipt1, ex_receipt2, ex_receipt3])) =
     [ex_receipt1, ex_receipt2] @ ex_receipt3 # [] \<and>
   snd (for_each (on_receipt ex_applied (ex_block 10 [ex_receipt1, ex_receipt2, ex_receipt3]))
          [ex_receipt1, ex_receipt2]) = Returned \<and>
   on_receipt ex_applied (ex_block 10 [ex_receipt1, ex_receipt2, ex_receipt3]) ex_receipt3 =
     ([Socket_send
         (Failed_transaction_object
            \<lparr> trx_id = ''03ab'', zfto_block_num = 10, status_name = hard_fail, status_int = 2 \<rparr>)
         MSGTYPE_FAILED_TX 0],
      Returned) \<and>
   fst (snd (on_accepted_block ex_applied (ex_block 10 [ex_receipt1, ex_receipt2, ex_receipt3]))) =
     [accepted_effect (ex_block 10 [ex_receipt1, ex_receipt2, ex_receipt3])] @
     fst (for_each (on_receipt ex_applied (ex_block 10 [ex_receipt1, ex_receipt2, ex_receipt3]))
            [ex_receipt1, ex_receipt2]) @
     [Socket_send
         (Failed_transaction_object
            \<lparr> trx_id = ''03ab'', zfto_block_num = 10, status_name = hard_fail, status_int = 2 \<rparr>)
         MSGTYPE_FAILED_TX 0] \<and>
   snd (snd (on_accepted_block ex_applied (ex_block 10 [ex_receipt1, ex_receipt2, ex_receipt3]))) =
     Returned"
proof -
  have h: "status ex_receipt3 \<noteq> executed"
    "transactions (block (ex_block 10 [ex_receipt1, ex_receipt2, ex_receipt3])) =
       [ex_receipt1, ex_receipt2] @ ex_receipt3 # []"
    "snd (for_each (on_receipt ex_applied (ex_block 10 [ex_receipt1, ex_receipt2, ex_receipt3]))
          [ex_receipt1, ex_receipt2]) = Returned"
    by (simp_all add: ex_receipt_sel ex_block_sel ex_receipt1_effects ex_receipt2_effects)
  from failed_transaction_event [OF h] h show ?thesis
    by (simp add: ex_receipt_sel ex_block_sel fork_effects_def ex_applied_sel sha256_str_def
          hex_digit_def)
qed

text \<open>
  Claim C4 as the specification states it fails: the first receipt of the block is an
  executed transaction whose trace holds a sellram action of the system contract with a
  payload that does not deserialise; the handler is left by the exception after the
  AcceptedBlock message, and no FailedTransaction message is sent for the second receipt,
  whose status is \<open>hard_fail\<close>.
\<close>

theorem failed_transaction_not_reached_counterexample:
  "transactions (block (ex_block 10 [ex_receipt4, ex_receipt3])) = [ex_receipt4, ex_receipt3] \<and>
   status ex_receipt3 = hard_fail \<and>
   cached_traces ex_thrown (receipt_id ex_receipt4) = Some ex_trace4 \<and>
   action_traces ex_trace4 = [ex_sellram] \<and>
   find_accounts_and_tokens ex_sellram ([], []) = None \<and>
   on_accepted_block ex_thrown (ex_block 10 [ex_receipt4, ex_receipt3]) =
     (ex_thrown\<lparr>end_block := 10\<rparr>,
      [Socket_send
         (Accepted_block_object \<lparr> accepted_block_num = 10, accepted_block_digest = [205] \<rparr>)
         MSGTYPE_ACCEPTED_BLOCK 0],
      Threw)"
proof -
  have "find_accounts_and_tokens ex_sellram ([], []) = None"
    by (simp add: ex_sellram_def ex_action_def visit_action_def system_action_accounts_def
          system_account_name_def set_insert_def Let_def N_values N_values_system)
  then show ?thesis
    by (simp add: ex_block_sel ex_receipt_sel ex_thrown_block ex_thrown_sel ex_receipt4_sel)
qed

text \<open>
  Claim C5. \<open>on_applied_transaction\<close> stores the trace in the cache under its transaction
  identifier, replacing an earlier entry, when the trace carries a receipt, and changes
  nothing and does nothing when it carries none.
\<close>

theorem on_applied_transaction_cache:
  "(trace_receipt p \<noteq> None \<longrightarrow>
      on_applied_transaction s p =
        (s\<lparr>cached_traces := (cached_traces s)(trace_id p \<mapsto> p)\<rparr>, [], Returned) \<and>
      cached_traces (fst (on_applied_transaction s p)) (trace_id p) = Some p \<and>
      (\<forall>i. i \<noteq> trace_id p \<longrightarrow>
         cached_traces (fst (on_applied_transaction s p)) i = cached_traces s i)) \<and>
   (trace_receipt p = None \<longrightarrow> on_applied_transaction s p = (s, [], Returned))"
  by (simp add: on_applied_transaction_def)

theorem on_applied_transaction_cache_witness:
  "trace_receipt ex_trace1 \<noteq> None \<and>
   cached_traces (fst (on_applied_transaction ex_plugin ex_trace1)) [1] = Some ex_trace1 \<and>
   cached_traces (fst (on_applied_transaction ex_plugin ex_trace1)) [2] = cached_traces ex_plugin [2] \<and>
   trace_receipt ex_trace2 = None \<and>
   on_applied_transaction ex_plugin ex_trace2 = (ex_plugin, [], Returned)"
  using on_applied_transaction_cache [of ex_trace1 ex_plugin]
    on_applied_transaction_cache [of ex_trace2 ex_plugin]
  by (simp add: ex_trace1_def ex_trace2_def)

text \<open>
  Claim C6, as amended. For every receipt of an accepted block with status \<open>executed\<close>
  whose identifier has no cached trace, or a cached trace without a receipt, and that the
  loop reaches, that is when the processing of every earlier receipt of the block
  returns, the handler writes the log line at the place of that receipt among its
  effects, sends nothing for it, and goes on with the receipts that follow: they are
  processed as in the block without this receipt, and the handler completes and leaves
  the state as it does for that block.
\<close>

theorem missing_trace_skipped:
  assumes "status r = executed"
    and "cached_traces s (receipt_id r) = None \<or>
         (\<exists>t. cached_traces s (receipt_id r) = Some t \<and> trace_receipt t = None)"
    and "transactions (block bs) = rs1 @ r # rs2"
    and "snd (for_each (on_receipt s bs) rs1) = Returned"
  shows "on_receipt s bs r = ([Ilog_missing_trace (receipt_id r)], Returned) \<and>
         fst (snd (on_accepted_block s bs)) =
           fork_effects s bs @ [accepted_effect bs] @
           fst (for_each (on_receipt s bs) rs1) @
           [Ilog_missing_trace (receipt_id r)] @
           fst (for_each (on_receipt s bs) rs2) \<and>
         snd (snd (on_accepted_block s bs)) = snd (for_each (on_receipt s bs) rs2) \<and>
         fst (snd (on_accepted_block s (with_transactions bs (rs1 @ rs2)))) =
           fork_effects s bs @ [accepted_effect bs] @
           fst (for_each (on_receipt s bs) rs1) @
           fst (for_each (on_receipt s bs) rs2) \<and>
         snd (snd (on_accepted_block s bs)) =
           snd (snd (on_accepted_block s (with_transactions bs (rs1 @ rs2)))) \<and>
         fst (on_accepted_block s bs) =
           fst (on_accepted_block s (with_transactions bs (rs1 @ rs2)))"
proof -
  let ?bs2 = "with_transactions bs (rs1 @ rs2)"
  have body: "on_receipt s bs r = ([Ilog_missing_trace (receipt_id r)], Returned)"
    using assms(1,2) by (auto simp: on_receipt_def Let_def)
  have same: "on_receipt s ?bs2 = on_receipt s bs"
    by (rule ext, rule on_receipt_block) (simp_all add: with_transactions_def)
  have sel: "block_num (block ?bs2) = block_num (block bs)" "transactions (block ?bs2) = rs1 @ rs2"
    "fork_effects s ?bs2 = fork_effects s bs" "accepted_effect ?bs2 = accepted_effect bs"
    by (simp_all add: with_transactions_def fork_effects_def accepted_effect_def)
  obtain es1 where es1: "for_each (on_receipt s bs) rs1 = (es1, Returned)"
    using assms(4) by (cases "for_each (on_receipt s bs) rs1") simp
  obtain es2 c2 where es2: "for_each (on_receipt s bs) rs2 = (es2, c2)"
    by (cases "for_each (on_receipt s bs) rs2")
  have with_r: "for_each (on_receipt s bs) (rs1 @ r # rs2) =
      (es1 @ [Ilog_missing_trace (receipt_id r)] @ es2, c2)"
    by (simp add: for_each_append es1 es2 body)
  have without_r: "for_each (on_receipt s bs) (rs1 @ rs2) = (es1 @ es2, c2)"
    by (simp add: for_each_append es1 es2)
  from body es1 es2 with_r without_r show ?thesis
    by (simp add: on_accepted_block_effects on_accepted_block_completion on_accepted_block_state
          assms(3) same sel)
qed

theorem missing_trace_skipped_witness:
  "status ex_receipt2 = executed \<and>
   cached_traces ex_applied (receipt_id ex_receipt2) = None \<and>
   transactions (block (ex_block 10 [ex_receipt1, ex_receipt2, ex_receipt3])) =
     [ex_receipt1] @ ex_receipt2 # [ex_receipt3] \<and>
   snd (for_each (on_receipt ex_applied (ex_block 10 [ex_receipt1, ex_receipt2, ex_receipt3]))
          [ex_receipt1]) = Returned \<and>
   fst (snd (on_accepted_block ex_applied (ex_block 10 [ex_receipt1, ex_receipt2, ex_receipt3]))) =
     [accepted_effect (ex_block 10 [ex_receipt1, ex_receipt2, ex_receipt3])] @
     fst (on_receipt ex_applied (ex_block 10 [ex_receipt1, ex_receipt2, ex_receipt3]) ex_receipt1) @
     [Ilog_missing_trace [2]] @
     [Socket_send
        (Failed_transaction_object
           \<lparr> trx_id = ''03ab'', zfto_block_num = 10, status_name = hard_fail, status_int = 2 \<rparr>)
        MSGTYPE_FAILED_TX 0] \<and>
   snd (snd (on_accepted_block ex_applied (ex_block 10 [ex_receipt1, ex_receipt2, ex_receipt3]))) =
     Returned \<and>
   fst (on_accepted_block ex_applied (ex_block 10 [ex_receipt1, ex_receipt2, ex_receipt3])) =
     fst (on_accepted_block ex_applied
       (with_transactions (ex_block 10 [ex_receipt1, ex_receipt2, ex_receipt3])
          ([ex_receipt1] @ [ex_receipt3])))"
proof -
  have h: "status ex_receipt2 = executed"
    "cached_traces ex_applied (receipt_id ex_receipt2) = None \<or>
     (\<exists>t. cached_traces ex_applied (receipt_id ex_receipt2) = Some t \<and> trace_receipt t = None)"
    "transactions (block (ex_block 10 [ex_receipt1, ex_receipt2, ex_receipt3])) =
       [ex_receipt1] @ ex_receipt2 # [ex_receipt3]"
    "snd (for_each (on_receipt ex_applied (ex_block 10 [ex_receipt1, ex_receipt2, ex_receipt3]))
          [ex_receipt1]) = Returned"
    by (simp_all add: ex_receipt_sel ex_applied_sel ex_block_sel ex_receipt1_effects)
  from missing_trace_skipped [OF h] h(1,3,4) show ?thesis
    by (simp add: ex_receipt_sel ex_applied_sel ex_block_sel ex_receipt1_effects
          ex_receipt3_effects fork_effects_def)
qed

text \<open>
  Claim C6 as the specification states it fails: the first receipt of the block is an
  executed transaction whose trace holds a sellram action of the system contract with a
  payload that does not deserialise; the handler is left by the exception after the
  AcceptedBlock message, and the second receipt, an executed transaction without a cached
  trace, is neither logged nor followed by further processing.
\<close>

theorem missing_trace_not_reached_counterexample:
  "transactions (block (ex_block 10 [ex_receipt4, ex_receipt2])) = [ex_receipt4, ex_receipt2] \<and>
   status ex_receipt2 = executed \<and>
   cached_traces ex_thrown (receipt_id ex_receipt2) = None \<and>
   on_receipt ex_thrown (ex_block 10 [ex_receipt4, ex_receipt2]) ex_receipt4 = ([], Threw) \<and>
   on_accepted_block ex_thrown (ex_block 10 [ex_receipt4, ex_receipt2]) =
     (ex_thrown\<lparr>end_block := 10\<rparr>,
      [Socket_send
         (Accepted_block_object \<lparr> accepted_block_num = 10, accepted_block_digest = [205] \<rparr>)
         MSGTYPE_ACCEPTED_BLOCK 0],
      Threw)"
  by (simp add: ex_block_sel ex_receipt_sel ex_thrown_block ex_thrown_sel ex_receipt4_throws)

text \<open>
  Claim C7. For an account in the set of system accounts neither lookup is ever made,
  by \<open>on_action_trace\<close> or by the \<open>on_accepted_block\<close> that calls it, whatever the walker
  found, and no published object holds a resource snapshot or a balance of that account.
\<close>

theorem system_accounts_never_looked_up:
  assumes "a \<in> set (system_accounts s)"
  shows "Call_add_account_resource a \<notin> set (fst (on_action_trace s at bs)) \<and>
         Call_add_currency_balances a c \<notin> set (fst (on_action_trace s at bs)) \<and>
         Call_add_account_resource a \<notin> set (fst (snd (on_accepted_block s bs))) \<and>
         Call_add_currency_balances a c \<notin> set (fst (snd (on_accepted_block s bs))) \<and>
         (\<forall>zao t opts.
            Socket_send (Action_object zao) t opts \<in> set (fst (snd (on_accepted_block s bs))) \<longrightarrow>
            a \<notin> rb_account_name ` set (resource_balances zao) \<and>
            a \<notin> cb_account_name ` set (currency_balances zao))"
proof -
  note calls = on_action_trace_calls [OF assms]
  have 1: "Call_add_account_resource a \<notin> set (fst (snd (on_accepted_block s bs)))"
  proof
    assume "Call_add_account_resource a \<in> set (fst (snd (on_accepted_block s bs)))"
    from on_accepted_block_cases [OF this] calls(1) show False
      by (auto simp: fork_effects_def accepted_effect_def split: if_splits)
  qed
  have 2: "Call_add_currency_balances a c \<notin> set (fst (snd (on_accepted_block s bs)))"
  proof
    assume "Call_add_currency_balances a c \<in> set (fst (snd (on_accepted_block s bs)))"
    from on_accepted_block_cases [OF this] calls(2) show False
      by (auto simp: fork_effects_def accepted_effect_def split: if_splits)
  qed
  have 3: "a \<notin> rb_account_name ` set (resource_balances zao) \<and>
           a \<notin> cb_account_name ` set (currency_balances zao)"
    if "Socket_send (Action_object zao) t opts \<in> set (fst (snd (on_accepted_block s bs)))"
    for zao t opts
  proof -
    from on_accepted_block_cases [OF that]
    obtain at where "Socket_send (Action_object zao) t opts \<in> set (fst (on_action_trace s at bs))"
      by (auto simp: fork_effects_def accepted_effect_def split: if_splits)
    from on_action_trace_no_system [OF this] assms show ?thesis
      by (auto simp: no_system_balances_def)
  qed
  from calls 1 2 3 show ?thesis by blast
qed

theorem system_accounts_never_looked_up_witness:
  "N ''eosio.token'' \<in> set (system_accounts ex_applied) \<and>
   find_accounts_and_tokens ex_transfer ([], []) =
     Some ([N ''alice'', N ''bob'', N ''eosio.token''], [N ''eosio.token'']) \<and>
   Call_add_account_resource (N ''eosio.token'')
     \<notin> set (fst (on_action_trace ex_applied ex_transfer (ex_block 10 []))) \<and>
   Call_add_currency_balances (N ''eosio.token'') (N ''eosio.token'')
     \<notin> set (fst (on_action_trace ex_applied ex_transfer (ex_block 10 []))) \<and>
   Call_add_account_resource (N ''eosio.token'')
     \<notin> set (fst (snd (on_accepted_block ex_applied
                         (ex_block 10 [ex_receipt1, ex_receipt2, ex_receipt3])))) \<and>
   Socket_send (Action_object (ex_transfer_object 10)) MSGTYPE_ACTION_TRACE 0
     \<in> set (fst (snd (on_accepted_block ex_applied
                         (ex_block 10 [ex_receipt1, ex_receipt2, ex_receipt3])))) \<and>
   N ''eosio.token'' \<notin> rb_account_name ` set (resource_balances (ex_transfer_object 10))"
proof -
  have h: "N ''eosio.token'' \<in> set (system_accounts ex_applied)"
    by (simp add: ex_applied_sel ex_system_accounts)
  have m: "Socket_send (Action_object (ex_transfer_object 10)) MSGTYPE_ACTION_TRACE 0
     \<in> set (fst (snd (on_accepted_block ex_applied
                         (ex_block 10 [ex_receipt1, ex_receipt2, ex_receipt3]))))"
    by (simp add: ex_block_effects)
  from system_accounts_never_looked_up [OF h, of ex_transfer "ex_block 10 []" "N ''eosio.token''"]
    system_accounts_never_looked_up [OF h, of _ "ex_block 10 [ex_receipt1, ex_receipt2, ex_receipt3]"]
    h m ex_find_transfer
  show ?thesis
    by blast
qed

text \<open>
  Claim C8. Visiting an action adds its account to the token contracts if and only if
  the action is not an action of the system contract and is named transfer, issue or
  open, and such an action never makes the walk throw; so when a walk of an action tree
  returns, the token contracts it has added are exactly the accounts of the actions of
  the tree that satisfy this condition.
\<close>

theorem token_contracts_iff:
  "(visit_action rcpt a st = Some st' \<longrightarrow>
      snd st' = (if is_token_action a then set_insert (account a) (snd st) else snd st)) \<and>
   (is_token_action a \<longrightarrow> visit_action rcpt a st \<noteq> None) \<and>
   (find_accounts_and_tokens at (accounts, token_contracts) = Some (accounts', token_contracts') \<longrightarrow>
      set token_contracts' =
        set token_contracts \<union> account ` {a \<in> set (actions_of at). is_token_action a})"
  using visit_action_token_step [of rcpt a st st'] visit_action_token_returns [of a rcpt st]
    find_tokens(1) [of at "(accounts, token_contracts)" "(accounts', token_contracts')"]
  by simp

theorem token_contracts_iff_witness:
  "is_token_action (act (ex_action ''alice'' ''tokena'' ''transfer'' [])) \<and>
   visit_action (receipt (ex_action ''alice'' ''tokena'' ''transfer'' []))
       (act (ex_action ''alice'' ''tokena'' ''transfer'' [])) ([], []) =
     Some ([N ''alice'', N ''tokena''], [N ''tokena'']) \<and>
   find_accounts_and_tokens ex_trade ([], []) =
     Some ([N ''alice'', N ''bob'', N ''dex'', N ''tokena'', N ''tokenb''],
           [N ''tokena'', N ''tokenb'']) \<and>
   set [N ''tokena'', N ''tokenb''] =
     set [] \<union> account ` {a \<in> set (actions_of ex_trade). is_token_action a} \<and>
   N ''dex'' \<notin> set [N ''tokena'', N ''tokenb'']"
proof -
  have t: "is_token_action (act (ex_action ''alice'' ''tokena'' ''transfer'' []))"
    by (simp add: is_token_action_def ex_action_sel system_account_name_def N_values)
  have v: "visit_action (receipt (ex_action ''alice'' ''tokena'' ''transfer'' []))
       (act (ex_action ''alice'' ''tokena'' ''transfer'' [])) ([], []) =
     Some ([N ''alice'', N ''tokena''], [N ''tokena''])"
    by (simp add: visit_action_def ex_action_sel system_account_name_def set_insert_def Let_def
          N_values)
  have d: "N ''dex'' \<notin> set [N ''tokena'', N ''tokenb'']"
    by (simp add: N_values)
  from token_contracts_iff
    [of _ _ _ _ ex_trade "[]" "[]" "[N ''alice'', N ''bob'', N ''dex'', N ''tokena'', N ''tokenb'']"
      "[N ''tokena'', N ''tokenb'']"]
    ex_find_trade
  have "set [N ''tokena'', N ''tokenb''] =
     set [] \<union> account ` {a \<in> set (actions_of ex_trade). is_token_action a}"
    by blast
  with t v d ex_find_trade show ?thesis
    by (intro conjI) assumption+
qed

text \<open>
  Claim C9. A frame is the four bytes of the message type, the four bytes of the options,
  and then the bytes of the document, with nothing between or after them; reading the
  first eight bytes of a frame back gives the message type and the options that the
  sender supplied.
\<close>

theorem frame_header_roundtrip:
  "send_msg content msgtype msgopts =
     int32_bytes msgtype @ int32_bytes msgopts @ map of_char content \<and>
   length (int32_bytes msgtype) = 4 \<and> length (int32_bytes msgopts) = 4 \<and>
   length (send_msg content msgtype msgopts) = 8 + length content \<and>
   drop 8 (send_msg content msgtype msgopts) = map of_char content \<and>
   decode_header (send_msg content msgtype msgopts) = Some (msgtype, msgopts) \<and>
   frames to_string (Socket_send x msgtype msgopts) = [send_msg (to_string x) msgtype msgopts]"
  by (simp add: send_msg_def decode_header_def length_int32_bytes bytes_int32_int32_bytes)

theorem frame_header_roundtrip_witness:
  "send_msg ''{}'' MSGTYPE_FORK 0 = [2, 0, 0, 0, 0, 0, 0, 0, 123, 125] \<and>
   decode_header [2, 0, 0, 0, 0, 0, 0, 0, 123, 125] = Some (MSGTYPE_FORK, 0)"
  using frame_header_roundtrip [of "''{}''" MSGTYPE_FORK 0]
  by (simp add: int32_bytes_def decode_header_def bytes_int32_def MSGTYPE_FORK_def)

text \<open>
  Claim C10. When \<open>on_action_trace\<close> publishes a top-level action that is not
  blacklisted, it has made, before the single ActionTrace message, one resource lookup for
  every discovered account outside the system accounts and one balance lookup for every
  pair of such an account and a discovered token contract, whether or not that account
  had to do with that contract in the action tree, and no other lookup; and the
  published object holds what these lookups return: the resource snapshot of each such
  account, once and in order, and the token balances of each such pair, in order.
\<close>

theorem lookups_cross_product:
  assumes "\<not> blacklisted s (act at)"
    and "find_accounts_and_tokens at ([], []) = Some (accounts, token_contracts)"
  shows "(\<exists>zao.
            on_action_trace s at bs =
              (lookup_calls s accounts token_contracts @
                 [Socket_send (Action_object zao) MSGTYPE_ACTION_TRACE 0], Returned) \<and>
            resource_balances zao =
              map (resource_snapshot (chain_plug s))
                (filter (\<lambda>a. a \<notin> set (system_accounts s)) accounts) \<and>
            map rb_account_name (resource_balances zao) =
              filter (\<lambda>a. a \<notin> set (system_accounts s)) accounts \<and>
            currency_balances zao =
              concat (map (\<lambda>(a, c). token_balance (chain_plug s) a c)
                (List.product (filter (\<lambda>a. a \<notin> set (system_accounts s)) accounts)
                   token_contracts))) \<and>
         distinct accounts \<and> distinct token_contracts \<and>
         (\<forall>a c. count_list (fst (on_action_trace s at bs)) (Call_add_currency_balances a c) =
            (if a \<in> set accounts \<and> a \<notin> set (system_accounts s) \<and> c \<in> set token_contracts
             then 1 else 0)) \<and>
         (\<forall>a. count_list (fst (on_action_trace s at bs)) (Call_add_account_resource a) =
            (if a \<in> set accounts \<and> a \<notin> set (system_accounts s) then 1 else 0)) \<and>
         add_account_resource ch z a' =
           z\<lparr>resource_balances := resource_balances z @ [resource_snapshot ch a']\<rparr> \<and>
         add_currency_balances ch z a' c' =
           z\<lparr>currency_balances := currency_balances z @ token_balance ch a' c'\<rparr>"
proof -
  from find_distinct(1) [OF assms(2)] have d: "distinct accounts" "distinct token_contracts"
    by simp_all
  note p = on_action_trace_published [OF assms, of bs]
  let ?zao = "published_object s at bs accounts token_contracts"
  have names: "map rb_account_name (resource_balances ?zao) =
      filter (\<lambda>a. a \<notin> set (system_accounts s)) accounts"
    by (simp add: published_object_def resource_snapshot_def comp_def)
  have "on_action_trace s at bs =
          (lookup_calls s accounts token_contracts @
             [Socket_send (Action_object ?zao) MSGTYPE_ACTION_TRACE 0], Returned) \<and>
        resource_balances ?zao =
          map (resource_snapshot (chain_plug s))
            (filter (\<lambda>a. a \<notin> set (system_accounts s)) accounts) \<and>
        map rb_account_name (resource_balances ?zao) =
          filter (\<lambda>a. a \<notin> set (system_accounts s)) accounts \<and>
        currency_balances ?zao =
          concat (map (\<lambda>(a, c). token_balance (chain_plug s) a c)
            (List.product (filter (\<lambda>a. a \<notin> set (system_accounts s)) accounts)
               token_contracts))"
    using p names by (simp add: published_object_def)
  then have 1: "\<exists>zao.
            on_action_trace s at bs =
              (lookup_calls s accounts token_contracts @
                 [Socket_send (Action_object zao) MSGTYPE_ACTION_TRACE 0], Returned) \<and>
            resource_balances zao =
              map (resource_snapshot (chain_plug s))
                (filter (\<lambda>a. a \<notin> set (system_accounts s)) accounts) \<and>
            map rb_account_name (resource_balances zao) =
              filter (\<lambda>a. a \<notin> set (system_accounts s)) accounts \<and>
            currency_balances zao =
              concat (map (\<lambda>(a, c). token_balance (chain_plug s) a c)
                (List.product (filter (\<lambda>a. a \<notin> set (system_accounts s)) accounts)
                   token_contracts))"
    by (rule exI)
  have 2: "\<forall>a c. count_list (fst (on_action_trace s at bs)) (Call_add_currency_balances a c) =
            (if a \<in> set accounts \<and> a \<notin> set (system_accounts s) \<and> c \<in> set token_contracts
             then 1 else 0)"
    by (simp add: p count_lookup_calls_currency [OF d])
  have 3: "\<forall>a. count_list (fst (on_action_trace s at bs)) (Call_add_account_resource a) =
            (if a \<in> set accounts \<and> a \<notin> set (system_accounts s) then 1 else 0)"
    by (simp add: p count_lookup_calls_resource [OF d(1)])
  from 1 d 2 3 show ?thesis
    by (simp only: add_account_resource_snapshot add_currency_balances_token_balance) simp
qed

theorem lookups_cross_product_witness:
  "\<not> blacklisted ex_plugin_tokens (act ex_trade) \<and>
   find_accounts_and_tokens ex_trade ([], []) =
     Some ([N ''alice'', N ''bob'', N ''dex'', N ''tokena'', N ''tokenb''],
           [N ''tokena'', N ''tokenb'']) \<and>
   (\<exists>zao.
      on_action_trace ex_plugin_tokens ex_trade (ex_block 10 []) =
        (lookup_calls ex_plugin_tokens
           [N ''alice'', N ''bob'', N ''dex'', N ''tokena'', N ''tokenb'']
           [N ''tokena'', N ''tokenb''] @
         [Socket_send (Action_object zao) MSGTYPE_ACTION_TRACE 0], Returned) \<and>
      resource_balances zao =
        [ex_resource_balance (N ''alice''), ex_resource_balance (N ''bob''),
         ex_resource_balance (N ''dex''), ex_resource_balance (N ''tokena''),
         ex_resource_balance (N ''tokenb'')] \<and>
      currency_balances zao =
        [\<lparr> cb_account_name = N ''alice'', contract = N ''tokenb'',
            balance = \<lparr> amount = 5, sym = 1 \<rparr> \<rparr>]) \<and>
   count_list (fst (on_action_trace ex_plugin_tokens ex_trade (ex_block 10 [])))
     (Call_add_currency_balances (N ''alice'') (N ''tokenb'')) = 1 \<and>
   count_list (fst (on_action_trace ex_plugin_tokens ex_trade (ex_block 10 [])))
     (Call_add_currency_balances (N ''bob'') (N ''tokena'')) = 1 \<and>
   count_list (fst (on_action_trace ex_plugin_tokens ex_trade (ex_block 10 [])))
     (Call_add_account_resource (N ''alice'')) = 1 \<and>
   count_list (fst (on_action_trace ex_plugin_tokens ex_trade (ex_block 10 [])))
     (Call_add_currency_balances (N ''carol'') (N ''tokena'')) = 0"
proof -
  let ?accs = "[N ''alice'', N ''bob'', N ''dex'', N ''tokena'', N ''tokenb'']"
  let ?toks = "[N ''tokena'', N ''tokenb'']"
  note T = lookups_cross_product [OF ex_tokens_blacklisted ex_find_trade, of "ex_block 10 []"]
  have f: "filter (\<lambda>a. a \<notin> set (system_accounts ex_plugin_tokens)) ?accs = ?accs"
    by (simp add: ex_tokens_sel ex_system_accounts N_values)
  have b: "concat (map (\<lambda>(a, c). token_balance (chain_plug ex_plugin_tokens) a c)
             (List.product ?accs ?toks)) =
           [\<lparr> cb_account_name = N ''alice'', contract = N ''tokenb'',
               balance = \<lparr> amount = 5, sym = 1 \<rparr> \<rparr>]"
    by (simp add: ex_tokens_sel ex_token_balance N_values)
  have r: "map (resource_snapshot (chain_plug ex_plugin_tokens)) ?accs =
        [ex_resource_balance (N ''alice''), ex_resource_balance (N ''bob''),
         ex_resource_balance (N ''dex''), ex_resource_balance (N ''tokena''),
         ex_resource_balance (N ''tokenb'')]"
    by (simp add: ex_tokens_sel ex_resource_snapshot)
  from T have e: "\<exists>zao.
      on_action_trace ex_plugin_tokens ex_trade (ex_block 10 []) =
        (lookup_calls ex_plugin_tokens ?accs ?toks @
         [Socket_send (Action_object zao) MSGTYPE_ACTION_TRACE 0], Returned) \<and>
      resource_balances zao =
        [ex_resource_balance (N ''alice''), ex_resource_balance (N ''bob''),
         ex_resource_balance (N ''dex''), ex_resource_balance (N ''tokena''),
         ex_resource_balance (N ''tokenb'')] \<and>
      currency_balances zao =
        [\<lparr> cb_account_name = N ''alice'', contract = N ''tokenb'',
            balance = \<lparr> amount = 5, sym = 1 \<rparr> \<rparr>]"
    unfolding f b r by blast
  from T have c: "\<And>a c. count_list (fst (on_action_trace ex_plugin_tokens ex_trade (ex_block 10 [])))
        (Call_add_currency_balances a c) =
        (if a \<in> set ?accs \<and> a \<notin> set (system_accounts ex_plugin_tokens) \<and> c \<in> set ?toks
         then 1 else 0)"
    and c': "\<And>a. count_list (fst (on_action_trace ex_plugin_tokens ex_trade (ex_block 10 [])))
        (Call_add_account_resource a) =
        (if a \<in> set ?accs \<and> a \<notin> set (system_accounts ex_plugin_tokens) then 1 else 0)"
    by blast+
  have n: "count_list (fst (on_action_trace ex_plugin_tokens ex_trade (ex_block 10 [])))
       (Call_add_currency_balances (N ''alice'') (N ''tokenb'')) = 1"
    "count_list (fst (on_action_trace ex_plugin_tokens ex_trade (ex_block 10 [])))
       (Call_add_currency_balances (N ''bob'') (N ''tokena'')) = 1"
    "count_list (fst (on_action_trace ex_plugin_tokens ex_trade (ex_block 10 [])))
       (Call_add_account_resource (N ''alice'')) = 1"
    "count_list (fst (on_action_trace ex_plugin_tokens ex_trade (ex_block 10 [])))
       (Call_add_currency_balances (N ''carol'') (N ''tokena'')) = 0"
    by (simp_all add: c c' ex_tokens_sel ex_system_accounts N_values)
  from ex_tokens_blacklisted ex_find_trade e n show ?thesis
    by (intro conjI) assumption+
qed

end
